theory Spec2Isabelle
  imports Complex_Main "HOL-Library.AList"
begin

section \<open>Numbers\<close>

text \<open>
  A JavaScript number is modelled as a real where the source can only hold a finite
  value there (samples, sample rates, thresholds, weights, gains). Where the source
  itself produces a non-finite value (it writes \<open>-Infinity\<close> for an empty or silent
  buffer), the value has type \<open>jsnum\<close>, and the operations applied to such values
  follow IEEE 754 on the special values. A division of finite operands is HOL's division:
  a division by zero, an infinity or \<open>NaN\<close> in the source, is 0 here. The loudness
  properties meet one, the mean square of a block of size 0 (a sample rate below 2.5 Hz):
  the absolute gate rejects it in the source, where it is \<open>NaN\<close>, and here alike.

  The rounding of the double format is left out of the signal processing, and written out
  in the three computations whose last bit decides a result: the standard deviation that
  \<open>checkRecalibrationNeeded\<close> compares with 5, the weight that \<open>fetchConfigFromDB\<close>
  rounds to an integer, and the quotients of \<open>normalizedWeights\<close>. There every operation
  of the source is followed by \<open>fl64\<close>, the rounding to the nearest double, a tie going to
  the even significand, with gradual underflow (the last place is never below 2 to the
  power -1074). The overflow to an infinity is not part of \<open>fl64\<close>: the statements bound
  their operands so that no result reaches 2 to the power 1024, and a sample buffer, being
  a list of reals, holds finite samples only. \<open>Math.pow(x, 2)\<close> and \<open>Math.sqrt\<close> are taken
  as correctly rounded.
\<close>

datatype jsnum = NaN | NegInf | PosInf | Fin real

fun isFinite :: "jsnum \<Rightarrow> bool" where
  "isFinite (Fin x) = True"
| "isFinite _ = False"

definition Math_round :: "real \<Rightarrow> int" where
  \<comment> \<open>\<open>Math.round\<close>: the nearest integer, a half rounded towards +Infinity.\<close>
  "Math_round x = \<lfloor>x + 1 / 2\<rfloor>"

definition Math_log10 :: "real \<Rightarrow> real" where
  "Math_log10 x = log 10 x"

definition Math_pow10 :: "real \<Rightarrow> real" where
  \<comment> \<open>\<open>Math.pow(10, x)\<close>\<close>
  "Math_pow10 x = 10 powr x"

definition roundEven :: "real \<Rightarrow> int" where
  \<comment> \<open>the nearest integer, a half going to the even one\<close>
  "roundEven y =
     (let f = \<lfloor>y\<rfloor>; d = y - real_of_int f
      in if d < 1 / 2 then f else if d > 1 / 2 then f + 1 else if even f then f else f + 1)"

definition ulpExp :: "real \<Rightarrow> int" where
  \<comment> \<open>the exponent of the last place of the doubles of the magnitude of \<open>x\<close>\<close>
  "ulpExp x = max (\<lfloor>log 2 \<bar>x\<bar>\<rfloor> - 52) (- 1074)"

definition fl64 :: "real \<Rightarrow> real" where
  "fl64 x = (if x = 0 then 0
             else real_of_int (roundEven (x / 2 powr real_of_int (ulpExp x)))
                    * 2 powr real_of_int (ulpExp x))"

definition isDouble :: "real \<Rightarrow> bool" where
  \<comment> \<open>\<open>x\<close> is a finite value of the double format\<close>
  "isDouble x = (fl64 x = x \<and> \<bar>x\<bar> < 2 ^ 1024)"

definition Math_pow2 :: "real \<Rightarrow> real" where
  \<comment> \<open>\<open>Math.pow(x, 2)\<close>\<close>
  "Math_pow2 x = fl64 (x * x)"

definition Math_sqrt :: "real \<Rightarrow> real" where
  "Math_sqrt x = fl64 (sqrt x)"

section \<open>Inputs of an analysis call (audioAnalysis.ts)\<close>

text \<open>
  The field \<open>end\<close> of a speech segment is \<open>end'\<close> here. What the two transcription
  functions answer is one record: the length of \<open>words\<close> when it is an array, and the
  fields a response may carry.
\<close>

record TranscribeData =
  words :: "nat option"
  transcript :: "string option"
  wordsPerMinute :: "real option"
  duration :: "real option"

datatype Invoke = InvokeRejects | InvokeResult (invError: bool) (invData: "TranscribeData option")

record SpeechSegment =
  start :: real
  end' :: real
  duration :: real

record VADMetrics =
  speechSegments :: "SpeechSegment list"
  totalSpeechTime :: real
  totalSilenceTime :: real
  speechRatio :: real
  isSpeaking :: bool
  speechProbability :: real

datatype Blob = Blob

record AudioOptions =
  audioBlob :: "Blob option"
  audioBase64 :: "string option"
  mimeType :: "string option"
  deviceId :: "string option"
  vadMetrics :: "VADMetrics option"
  sttWordCount :: "real option"

section \<open>Loudness measurement (lufsNormalization.ts)\<close>

definition TARGET_LUFS :: real where
  "TARGET_LUFS = -23"

definition MAX_RECORDING_HISTORY :: nat where
  "MAX_RECORDING_HISTORY = 10"

definition VARIANCE_THRESHOLD :: real where
  "VARIANCE_THRESHOLD = 5"

definition blockSizeOf :: "real \<Rightarrow> int" where
  \<comment> \<open>\<open>const blockSize = Math.floor(sampleRate * 0.4)\<close>\<close>
  "blockSizeOf sampleRate = \<lfloor>sampleRate * 0.4\<rfloor>"

definition hopOf :: "real \<Rightarrow> int" where
  \<comment> \<open>\<open>overlap = Math.floor(blockSize * 0.75); hop = Math.max(1, blockSize - overlap)\<close>\<close>
  "hopOf sampleRate =
     (let blockSize = blockSizeOf sampleRate;
          overlap = \<lfloor>real_of_int blockSize * 0.75\<rfloor>
      in max 1 (blockSize - overlap))"

definition blockSum :: "real list \<Rightarrow> int \<Rightarrow> int \<Rightarrow> real" where
  \<comment> \<open>The inner loop: the sum of \<open>s * s\<close> for \<open>s = audioBuffer[i + j]\<close>, \<open>0 \<le> j < blockSize\<close>.\<close>
  "blockSum audioBuffer blockSize i =
     (\<Sum>j\<leftarrow>[0..<nat blockSize]. audioBuffer ! (nat i + j) * audioBuffer ! (nat i + j))"

function gatingBlocks :: "real list \<Rightarrow> real \<Rightarrow> int \<Rightarrow> real list" where
  "gatingBlocks audioBuffer sampleRate i =
     (if i < int (length audioBuffer) - blockSizeOf sampleRate
      then (blockSum audioBuffer (blockSizeOf sampleRate) i / real_of_int (blockSizeOf sampleRate))
             # gatingBlocks audioBuffer sampleRate (i + hopOf sampleRate)
      else [])"
  by pat_completeness auto
termination
  by (relation "measure (\<lambda>(audioBuffer, sampleRate, i).
        nat (int (length audioBuffer) - blockSizeOf sampleRate - i))")
     (auto simp: hopOf_def Let_def)

declare gatingBlocks.simps [simp del]

definition absoluteGate :: real where
  "absoluteGate = Math_pow10 (-70 / 10)"

definition gatedBlocks :: "real list \<Rightarrow> real \<Rightarrow> real list" where
  \<comment> \<open>\<open>gated\<close>: the blocks that pass the absolute gate.\<close>
  "gatedBlocks audioBuffer sampleRate =
     filter (\<lambda>ms. ms \<ge> absoluteGate) (gatingBlocks audioBuffer sampleRate 0)"

definition gatedAvg :: "real list \<Rightarrow> real \<Rightarrow> real" where
  "gatedAvg audioBuffer sampleRate =
     (let gated = gatedBlocks audioBuffer sampleRate
      in foldl (+) 0 gated / real (length gated))"

definition finalBlocks :: "real list \<Rightarrow> real \<Rightarrow> real list" where
  \<comment> \<open>\<open>finalBlocks\<close>: the gated blocks that also pass the relative gate.\<close>
  "finalBlocks audioBuffer sampleRate =
     (let relativeGate = gatedAvg audioBuffer sampleRate * Math_pow10 (-10 / 10)
      in filter (\<lambda>ms. ms \<ge> relativeGate) (gatedBlocks audioBuffer sampleRate))"

definition calculateMeanSquareWithGating :: "real list \<Rightarrow> real \<Rightarrow> real" where
  "calculateMeanSquareWithGating audioBuffer sampleRate =
     (if gatingBlocks audioBuffer sampleRate 0 = [] then 0
      else if gatedBlocks audioBuffer sampleRate = [] then 0
      else if finalBlocks audioBuffer sampleRate = [] then gatedAvg audioBuffer sampleRate
      else foldl (+) 0 (finalBlocks audioBuffer sampleRate)
             / real (length (finalBlocks audioBuffer sampleRate)))"

definition calculateLUFS :: "real list \<Rightarrow> real \<Rightarrow> jsnum" where
  "calculateLUFS audioBuffer sampleRate =
     (if audioBuffer = [] then NegInf
      else let meanSquare = calculateMeanSquareWithGating audioBuffer sampleRate
           in if meanSquare = 0 then NegInf
              else Fin (-0.691 + 10 * Math_log10 meanSquare))"

record NormalizeResult =
  normalized :: "real list"
  currentLUFS :: jsnum
  gainDB :: real
  gainLinear :: real

definition clip :: "real \<Rightarrow> real" where
  \<comment> \<open>\<open>Math.max(-1, Math.min(1, x))\<close>\<close>
  "clip x = max (-1) (min 1 x)"

definition normalizeToLUFS :: "real list \<Rightarrow> real \<Rightarrow> real \<Rightarrow> NormalizeResult" where
  "normalizeToLUFS audioBuffer sampleRate targetLUFS =
     (case calculateLUFS audioBuffer sampleRate of
        Fin cur \<Rightarrow>
          (let gDB = targetLUFS - cur;
               gLinear = Math_pow10 (gDB / 20)
           in \<lparr>normalized = map (\<lambda>s. clip (s * gLinear)) audioBuffer,
               currentLUFS = Fin cur, gainDB = gDB, gainLinear = gLinear\<rparr>)
      | _ \<Rightarrow> \<lparr>normalized = audioBuffer, currentLUFS = NegInf, gainDB = 0, gainLinear = 1\<rparr>)"


section \<open>Calibration profiles (lufsNormalization.ts)\<close>

text \<open>
  Profiles live in \<open>localStorage\<close> as JSON and every function reads them back with
  \<open>JSON.parse\<close>. \<open>JSON.stringify\<close> writes a non-finite number as \<open>null\<close>, so a
  stored number that the code may have computed as \<open>-Infinity\<close> is a \<open>real option\<close>,
  \<open>None\<close> for \<open>null\<close>; arithmetic on a \<open>null\<close> takes it as 0.
\<close>

definition toJSON :: "jsnum \<Rightarrow> real option" where
  "toJSON x = (case x of Fin r \<Rightarrow> Some r | _ \<Rightarrow> None)"

definition numberOf :: "real option \<Rightarrow> real" where
  "numberOf v = (case v of Some r \<Rightarrow> r | None \<Rightarrow> 0)"

record RecordingStats =
  timestamp :: int
  originalLUFS :: "real option"
  calibratedLUFS :: "real option"
  finalLUFS :: "real option"
  noiseFloor :: "real option"

record CalibrationProfile =
  deviceId :: string
  deviceLabel :: string
  noiseFloor :: "real option"
  referenceLevel :: "real option"
  gainAdjustment :: real
  createdAt :: int
  lastUsed :: int
  recordingHistory :: "RecordingStats list option"

text \<open>
  The item under \<open>CALIBRATION_STORAGE_KEY\<close>: \<open>None\<close> when there is no item or it does
  not parse, else the parsed array of profiles. Writes to the storage succeed, and
  \<open>Date.now()\<close> is the parameter \<open>now\<close>, one value for the whole call.
\<close>

type_synonym storage = "CalibrationProfile list option"

definition getCalibrationProfiles :: "storage \<Rightarrow> CalibrationProfile list" where
  "getCalibrationProfiles st = (case st of Some profiles \<Rightarrow> profiles | None \<Rightarrow> [])"

fun findIndex :: "('a \<Rightarrow> bool) \<Rightarrow> 'a list \<Rightarrow> nat option" where
  \<comment> \<open>\<open>Array.prototype.findIndex\<close>, \<open>None\<close> for -1\<close>
  "findIndex P [] = None"
| "findIndex P (x # xs) = (if P x then Some 0 else map_option Suc (findIndex P xs))"

definition saveCalibrationProfile :: "CalibrationProfile \<Rightarrow> storage \<Rightarrow> storage" where
  "saveCalibrationProfile profile st =
     (let profiles = getCalibrationProfiles st
      in case findIndex (\<lambda>p. deviceId p = deviceId profile) profiles of
           Some idx \<Rightarrow> Some (profiles[idx := profile])
         | None \<Rightarrow> Some (profiles @ [profile]))"

definition getCalibrationProfile ::
  "string \<Rightarrow> int \<Rightarrow> storage \<Rightarrow> CalibrationProfile option \<times> storage" where
  "getCalibrationProfile dev now st =
     (case find (\<lambda>p. deviceId p = dev) (getCalibrationProfiles st) of
        None \<Rightarrow> (None, st)
      | Some profile \<Rightarrow>
          (let profile' = profile\<lparr>lastUsed := now\<rparr>
           in (Some profile', saveCalibrationProfile profile' st)))"

definition deleteCalibrationProfile :: "string \<Rightarrow> storage \<Rightarrow> storage" where
  "deleteCalibrationProfile dev st =
     Some (filter (\<lambda>p. deviceId p \<noteq> dev) (getCalibrationProfiles st))"

definition slice :: "int \<Rightarrow> int \<Rightarrow> 'a list \<Rightarrow> 'a list" where
  \<comment> \<open>\<open>xs.slice(b, e)\<close>: a negative index counts from the end.\<close>
  "slice b e xs =
     (let n = int (length xs);
          from = (if b < 0 then max 0 (n + b) else min b n);
          to = (if e < 0 then max 0 (n + e) else min e n)
      in take (nat (to - from)) (drop (nat from) xs))"

definition sliceFrom :: "int \<Rightarrow> 'a list \<Rightarrow> 'a list" where
  \<comment> \<open>\<open>xs.slice(b)\<close>\<close>
  "sliceFrom b xs = slice b (int (length xs)) xs"

definition rmsOf :: "real list \<Rightarrow> real" where
  \<comment> \<open>\<open>Math.sqrt(sum / length)\<close> with \<open>sum\<close> the sum of the squared samples\<close>
  "rmsOf segment = sqrt (foldl (\<lambda>sum s. sum + s * s) 0 segment / real (length segment))"

definition calculateNoiseFloor :: "real list \<Rightarrow> real \<Rightarrow> jsnum" where
  "calculateNoiseFloor audioBuffer sampleRate =
     (let frameSamples = \<lfloor>sampleRate * 0.1\<rfloor>;
          noiseSegment = slice 0 (min frameSamples (int (length audioBuffer))) audioBuffer
      in if noiseSegment = [] then NegInf
         else Fin (20 * Math_log10 (max (rmsOf noiseSegment) (1 / 10 ^ 10))))"

record TrackedStats =
  originalLUFS :: jsnum
  calibratedLUFS :: jsnum
  finalLUFS :: jsnum
  noiseFloor :: jsnum

definition historyEntry :: "TrackedStats \<Rightarrow> int \<Rightarrow> RecordingStats" where
  \<comment> \<open>\<open>{ ...stats, timestamp: Date.now() }\<close>, as it is read back from the storage\<close>
  "historyEntry stats now =
     \<lparr>timestamp = now,
      RecordingStats.originalLUFS = toJSON (TrackedStats.originalLUFS stats),
      RecordingStats.calibratedLUFS = toJSON (TrackedStats.calibratedLUFS stats),
      RecordingStats.finalLUFS = toJSON (TrackedStats.finalLUFS stats),
      RecordingStats.noiseFloor = toJSON (TrackedStats.noiseFloor stats)\<rparr>"

definition historyOf :: "CalibrationProfile \<Rightarrow> RecordingStats list" where
  \<comment> \<open>\<open>if (!profile.recordingHistory) profile.recordingHistory = []\<close>\<close>
  "historyOf profile = (case recordingHistory profile of Some h \<Rightarrow> h | None \<Rightarrow> [])"

definition trackRecording :: "string \<Rightarrow> TrackedStats \<Rightarrow> int \<Rightarrow> storage \<Rightarrow> storage" where
  "trackRecording dev stats now st =
     (case getCalibrationProfile dev now st of
        (None, st') \<Rightarrow> st'
      | (Some profile, st') \<Rightarrow>
          (let pushed = historyOf profile @ [historyEntry stats now];
               history = (if length pushed > MAX_RECORDING_HISTORY
                          then sliceFrom (- int MAX_RECORDING_HISTORY) pushed else pushed)
           in saveCalibrationProfile (profile\<lparr>recordingHistory := Some history\<rparr>) st'))"

definition calcStd :: "real option list \<Rightarrow> real" where
  \<comment> \<open>in double arithmetic: both \<open>reduce\<close> calls start from 0 and round every sum\<close>
  "calcStd values =
     (if length values < 3 then 0
      else let mean = fl64 (foldl (\<lambda>a b. fl64 (a + numberOf b)) 0 values / real (length values));
               sq = map (\<lambda>v. Math_pow2 (fl64 (numberOf v - mean))) values
           in Math_sqrt (fl64 (foldl (\<lambda>a b. fl64 (a + b)) 0 sq / real (length values))))"

text \<open>
  The reason of a suggestion is a template with one number in it; the model keeps the
  template and the number, not the rendered text.
\<close>

datatype reason =
    HighVariance real    \<comment> \<open>High variance in audio levels detected (\<dots> LUFS).\<close>
  | NoiseChanged real    \<comment> \<open>Background noise level changed significantly (\<dots> dB).\<close>
  | CalibrationAge int   \<comment> \<open>Calibration is \<dots> days old.\<close>

record RecalibrationSuggestion =
  shouldRecalibrate :: bool
  reason :: "reason option"
  variance :: "real option"
  threshold :: "real option"

definition checkRecalibrationNeeded ::
  "string \<Rightarrow> int \<Rightarrow> storage \<Rightarrow> RecalibrationSuggestion \<times> storage" where
  "checkRecalibrationNeeded dev now st =
     (let no = \<lparr>shouldRecalibrate = False, reason = None, variance = None, threshold = None\<rparr>
      in case getCalibrationProfile dev now st of
        (None, st') \<Rightarrow> (no, st')
      | (Some profile, st') \<Rightarrow>
          (case recordingHistory profile of
             None \<Rightarrow> (no, st')
           | Some history \<Rightarrow>
               if length history < 3 then (no, st')
               else let lufsVar = calcStd (map RecordingStats.originalLUFS history) in
                 if lufsVar > VARIANCE_THRESHOLD
                 then (\<lparr>shouldRecalibrate = True, reason = Some (HighVariance lufsVar),
                        variance = Some lufsVar, threshold = Some VARIANCE_THRESHOLD\<rparr>, st')
                 else let noiseVar = calcStd (map RecordingStats.noiseFloor history) in
                   if noiseVar > 10
                   then (\<lparr>shouldRecalibrate = True, reason = Some (NoiseChanged noiseVar),
                          variance = Some noiseVar, threshold = Some 10\<rparr>, st')
                   else let daysSince = real_of_int (now - createdAt profile)
                                          / (1000 * 60 * 60 * 24) in
                     if daysSince > 30
                     then (\<lparr>shouldRecalibrate = True,
                            reason = Some (CalibrationAge \<lfloor>daysSince\<rfloor>),
                            variance = None, threshold = None\<rparr>, st')
                     else (no, st')))"

record CalibrateResult =
  normalized :: "real list"
  originalLUFS :: jsnum
  calibratedLUFS :: jsnum
  finalLUFS :: jsnum
  deviceGain :: real
  normalizationGain :: real

definition truthy :: "string option \<Rightarrow> bool" where
  \<comment> \<open>\<open>if (deviceId)\<close>: an optional string counts when it is given and not empty.\<close>
  "truthy s = (case s of Some x \<Rightarrow> x \<noteq> [] | None \<Rightarrow> False)"

definition calibrateAndNormalize ::
  "real list \<Rightarrow> real \<Rightarrow> string option \<Rightarrow> real \<Rightarrow> int \<Rightarrow> storage
     \<Rightarrow> CalibrateResult \<times> storage" where
  "calibrateAndNormalize audioBuffer sampleRate dev targetLUFS now st =
     (let original = calculateLUFS audioBuffer sampleRate;
          (found, st1) = (if truthy dev then getCalibrationProfile (the dev) now st
                          else (None, st));
          (processed, gain) =
            (case found of
               Some profile \<Rightarrow>
                 if gainAdjustment profile \<noteq> 1
                 then (map (\<lambda>s. clip (s * gainAdjustment profile)) audioBuffer,
                       gainAdjustment profile)
                 else (audioBuffer, 1)
             | None \<Rightarrow> (audioBuffer, 1));
          calibrated = calculateLUFS processed sampleRate;
          norm = normalizeToLUFS processed sampleRate targetLUFS;
          final = calculateLUFS (NormalizeResult.normalized norm) sampleRate;
          st2 = (if truthy dev
                 then trackRecording (the dev)
                        \<lparr>TrackedStats.originalLUFS = original,
                         TrackedStats.calibratedLUFS = calibrated,
                         TrackedStats.finalLUFS = final,
                         TrackedStats.noiseFloor = calculateNoiseFloor audioBuffer sampleRate\<rparr>
                        now st1
                 else st1)
      in (\<lparr>normalized = NormalizeResult.normalized norm, originalLUFS = original,
           calibratedLUFS = calibrated, finalLUFS = final, deviceGain = gain,
           normalizationGain = gainLinear norm\<rparr>, st2))"

section \<open>Arithmetic on values that may not be finite\<close>

fun jneg :: "jsnum \<Rightarrow> jsnum" where
  "jneg NaN = NaN"
| "jneg NegInf = PosInf"
| "jneg PosInf = NegInf"
| "jneg (Fin a) = Fin (- a)"

fun jadd :: "jsnum \<Rightarrow> jsnum \<Rightarrow> jsnum" where
  "jadd (Fin a) (Fin b) = Fin (a + b)"
| "jadd NaN _ = NaN"
| "jadd _ NaN = NaN"
| "jadd PosInf NegInf = NaN"
| "jadd NegInf PosInf = NaN"
| "jadd PosInf _ = PosInf"
| "jadd _ PosInf = PosInf"
| "jadd NegInf _ = NegInf"
| "jadd _ NegInf = NegInf"

definition jsub :: "jsnum \<Rightarrow> jsnum \<Rightarrow> jsnum" where
  "jsub a b = jadd a (jneg b)"

fun jscale :: "jsnum \<Rightarrow> real \<Rightarrow> jsnum" where
  \<comment> \<open>\<open>x * c\<close> for a finite \<open>c\<close>\<close>
  "jscale (Fin a) c = Fin (a * c)"
| "jscale NaN c = NaN"
| "jscale PosInf c = (if c = 0 then NaN else if 0 < c then PosInf else NegInf)"
| "jscale NegInf c = (if c = 0 then NaN else if 0 < c then NegInf else PosInf)"

fun jmax :: "jsnum \<Rightarrow> jsnum \<Rightarrow> jsnum" where
  \<comment> \<open>\<open>Math.max\<close>\<close>
  "jmax (Fin a) (Fin b) = Fin (max a b)"
| "jmax NaN _ = NaN"
| "jmax _ NaN = NaN"
| "jmax PosInf _ = PosInf"
| "jmax _ PosInf = PosInf"
| "jmax NegInf b = b"
| "jmax a NegInf = a"

fun jmin :: "jsnum \<Rightarrow> jsnum \<Rightarrow> jsnum" where
  \<comment> \<open>\<open>Math.min\<close>\<close>
  "jmin (Fin a) (Fin b) = Fin (min a b)"
| "jmin NaN _ = NaN"
| "jmin _ NaN = NaN"
| "jmin NegInf _ = NegInf"
| "jmin _ NegInf = NegInf"
| "jmin PosInf b = b"
| "jmin a PosInf = a"

fun jround :: "jsnum \<Rightarrow> jsnum" where
  \<comment> \<open>\<open>Math.round\<close>\<close>
  "jround (Fin a) = Fin (real_of_int (Math_round a))"
| "jround x = x"

fun jlt :: "jsnum \<Rightarrow> jsnum \<Rightarrow> bool" where
  \<comment> \<open>\<open>a < b\<close>: false as soon as one side is \<open>NaN\<close>\<close>
  "jlt (Fin a) (Fin b) = (a < b)"
| "jlt NaN _ = False"
| "jlt _ NaN = False"
| "jlt NegInf NegInf = False"
| "jlt NegInf _ = True"
| "jlt PosInf _ = False"
| "jlt _ PosInf = True"
| "jlt _ NegInf = False"

definition jge :: "jsnum \<Rightarrow> jsnum \<Rightarrow> bool" where
  \<comment> \<open>\<open>a >= b\<close>\<close>
  "jge a b = (a \<noteq> NaN \<and> b \<noteq> NaN \<and> \<not> jlt a b)"

definition roundTo :: "real \<Rightarrow> jsnum \<Rightarrow> jsnum" where
  \<comment> \<open>\<open>Math.round(x * k) / k\<close> for \<open>k\<close> = 10 or 100\<close>
  "roundTo k x = jscale (jround (jscale x k)) (1 / k)"

section \<open>Metric configuration (audioAnalysis.ts)\<close>

text \<open>
  The field names \<open>id\<close>, \<open>min\<close>, \<open>max\<close> and \<open>method\<close> of the source carry a prime
  here: they are names of HOL or of Isabelle.
\<close>

text \<open>
  An entry of the local override, as parsed from the \<open>metricConfig\<close> item: every field
  may be missing. The item itself is \<open>None\<close> when it is absent or when reading it throws
  (it does not parse, or is not an array).
\<close>

record LocalThresholds =
  min' :: "real option"
  ideal :: "real option"
  max' :: "real option"

record LocalEntry =
  id' :: "string option"
  weight :: "real option"
  enabled :: bool
  thresholds :: "LocalThresholds option"
  method' :: "string option"

text \<open>
  A row of the remote \<open>scoring_config\<close> table (\<open>weight\<close> is \<open>NOT NULL\<close>, the two bounds
  may be \<open>null\<close>), and what the query gives: a rejected promise, or \<open>{ data, error }\<close>.
\<close>

record ScoringRow =
  metric_name :: string
  weight :: real
  min_value :: "real option"
  max_value :: "real option"

datatype DbResult = Rejected | Response (dbError: bool) (dbData: "ScoringRow list option")

record Thresholds =
  min' :: real
  ideal :: real
  max' :: real

record MetricConfig =
  id' :: string
  weight :: real
  thresholds :: Thresholds
  method' :: "string option"

definition DEFAULT_CONFIG :: "MetricConfig list" where
  "DEFAULT_CONFIG =
     [\<lparr>id' = ''volume'', weight = 40,
        thresholds = \<lparr>min' = - 35, ideal = - 15, max' = 0\<rparr>, method' = None\<rparr>,
      \<lparr>id' = ''speechRate'', weight = 40,
        thresholds = \<lparr>min' = 90, ideal = 150, max' = 220\<rparr>, method' = Some ''spectral-flux''\<rparr>,
      \<lparr>id' = ''acceleration'', weight = 5,
        thresholds = \<lparr>min' = 0, ideal = 50, max' = 100\<rparr>, method' = None\<rparr>,
      \<lparr>id' = ''responseTime'', weight = 5,
        thresholds = \<lparr>min' = 2000, ideal = 200, max' = 0\<rparr>, method' = None\<rparr>,
      \<lparr>id' = ''pauseManagement'', weight = 10,
        thresholds = \<lparr>min' = 0, ideal = 0, max' = 2.71\<rparr>, method' = None\<rparr>]"

definition DB_METRIC_MAP :: "string \<Rightarrow> string option" where
  "DB_METRIC_MAP =
     map_of [(''volume'', ''volume''), (''speech_rate'', ''speechRate''),
             (''end_intensity'', ''acceleration''), (''latency'', ''responseTime''),
             (''pauses'', ''pauseManagement'')]"

definition CACHE_MS :: int where
  "CACHE_MS = 60000"

definition getMetricConfig :: "MetricConfig list \<Rightarrow> string \<Rightarrow> MetricConfig option" where
  "getMetricConfig config i = find (\<lambda>m. id' m = i) config"

definition orElse :: "'a option \<Rightarrow> 'a option \<Rightarrow> 'a option" where
  \<comment> \<open>\<open>a ?? b\<close>\<close>
  "orElse a b = (case a of Some x \<Rightarrow> Some x | None \<Rightarrow> b)"

definition localEntryValid :: "LocalEntry \<Rightarrow> bool" where
  \<comment> \<open>\<open>m.id && m.enabled && Number(m.weight) > 0\<close>\<close>
  "localEntryValid m =
     (truthy (LocalEntry.id' m) \<and> enabled m
      \<and> (case LocalEntry.weight m of Some w \<Rightarrow> w > 0 | None \<Rightarrow> False))"

definition localEntryConfig :: "LocalEntry \<Rightarrow> MetricConfig" where
  "localEntryConfig m =
     (let fallback = find (\<lambda>d. MetricConfig.id' d = the (LocalEntry.id' m)) DEFAULT_CONFIG;
          given = (\<lambda>field. case LocalEntry.thresholds m of Some t \<Rightarrow> field t | None \<Rightarrow> None);
          preset = (\<lambda>field. map_option (\<lambda>d. field (MetricConfig.thresholds d)) fallback)
      in \<lparr>id' = the (LocalEntry.id' m),
          weight = numberOf (orElse (LocalEntry.weight m) (Some 0)),
          thresholds =
            \<lparr>min' = numberOf (orElse (orElse (given LocalThresholds.min') (preset Thresholds.min')) (Some 0)),
             ideal = numberOf (orElse (orElse (given LocalThresholds.ideal) (preset Thresholds.ideal)) (Some 0)),
             max' = numberOf (orElse (orElse (given LocalThresholds.max') (preset Thresholds.max')) (Some 0))\<rparr>,
          method' = orElse (LocalEntry.method' m)
                     (case fallback of Some d \<Rightarrow> MetricConfig.method' d | None \<Rightarrow> None)\<rparr>)"

definition getConfigFromLocalStorage :: "LocalEntry list option \<Rightarrow> MetricConfig list option" where
  "getConfigFromLocalStorage raw =
     (case raw of
        None \<Rightarrow> None
      | Some parsed \<Rightarrow>
          (let mapped = map localEntryConfig (filter localEntryValid parsed)
           in if mapped \<noteq> [] then Some mapped else None))"

definition applyRow ::
  "ScoringRow \<Rightarrow> (string \<times> MetricConfig) list \<Rightarrow> (string \<times> MetricConfig) list" where
  \<comment> \<open>the body of \<open>for (const row of data)\<close>; \<open>base\<close> is the \<open>Map\<close>, in insertion order\<close>
  "applyRow row base =
     (case DB_METRIC_MAP (metric_name row) of
        None \<Rightarrow> base
      | Some i \<Rightarrow>
          (case map_of base i of
             None \<Rightarrow> base
           | Some prev \<Rightarrow>
               AList.update i
                 (prev\<lparr>MetricConfig.weight :=
                         real_of_int (Math_round (fl64 (ScoringRow.weight row * 100))),
                       MetricConfig.thresholds :=
                         \<lparr>min' = numberOf (orElse (min_value row)
                                   (Some (Thresholds.min' (MetricConfig.thresholds prev)))),
                          ideal = numberOf (orElse (max_value row)
                                    (Some (Thresholds.ideal (MetricConfig.thresholds prev)))),
                          max' = (if i = ''pauseManagement''
                                  then numberOf (orElse (max_value row)
                                         (Some (Thresholds.max' (MetricConfig.thresholds prev))))
                                  else Thresholds.max' (MetricConfig.thresholds prev))\<rparr>\<rparr>)
                 base))"

definition fetchConfigFromDB :: "DbResult \<Rightarrow> MetricConfig list" where
  "fetchConfigFromDB res =
     (case res of
        Rejected \<Rightarrow> DEFAULT_CONFIG
      | Response err dat \<Rightarrow>
          (case dat of
             None \<Rightarrow> DEFAULT_CONFIG
           | Some rows \<Rightarrow>
               if err \<or> rows = [] then DEFAULT_CONFIG
               else map snd (fold applyRow rows
                               (map (\<lambda>m. (MetricConfig.id' m, m)) DEFAULT_CONFIG))))"

record ConfigCache =
  cachedConfig :: "MetricConfig list option"
  cachedAt :: int

definition getConfigAsync ::
  "LocalEntry list option \<Rightarrow> DbResult \<Rightarrow> int \<Rightarrow> ConfigCache \<Rightarrow> MetricConfig list \<times> ConfigCache" where
  "getConfigAsync raw res now cache =
     (case getConfigFromLocalStorage raw of
        Some local \<Rightarrow> (local, cache)
      | None \<Rightarrow>
          (let cache' = (if cachedConfig cache = None \<or> now - cachedAt cache > CACHE_MS
                         then \<lparr>cachedConfig = Some (fetchConfigFromDB res), cachedAt = now\<rparr>
                         else cache)
           in (the (cachedConfig cache'), cache')))"

definition getSpeechRateMethod :: "MetricConfig list \<Rightarrow> string option \<Rightarrow> string" where
  \<comment> \<open>the second argument is the \<open>speechRateMethod\<close> item of the local storage\<close>
  "getSpeechRateMethod config localMethod =
     (if truthy localMethod then the localMethod
      else case getMetricConfig config ''speechRate'' of
             Some m \<Rightarrow> (case MetricConfig.method' m of Some x \<Rightarrow> x | None \<Rightarrow> ''spectral-flux'')
           | None \<Rightarrow> ''spectral-flux'')"

record Weights =
  volume :: real
  speechRate :: real
  acceleration :: real
  responseTime :: real
  pauseManagement :: real

definition normalizedWeights :: "MetricConfig list \<Rightarrow> Weights" where
  \<comment> \<open>in double arithmetic: the four additions, left to right, and the five divisions\<close>
  "normalizedWeights config =
     (let get = (\<lambda>i. case getMetricConfig config i of
                        Some m \<Rightarrow> MetricConfig.weight m | None \<Rightarrow> 0);
          raw = \<lparr>volume = get ''volume'', speechRate = get ''speechRate'',
                 acceleration = get ''acceleration'', responseTime = get ''responseTime'',
                 pauseManagement = get ''pauseManagement''\<rparr>;
          total = max 1 (fl64 (fl64 (fl64 (fl64 (volume raw + speechRate raw)
                                        + acceleration raw) + responseTime raw)
                               + pauseManagement raw))
      in \<lparr>volume = fl64 (volume raw / total), speechRate = fl64 (speechRate raw / total),
          acceleration = fl64 (acceleration raw / total),
          responseTime = fl64 (responseTime raw / total),
          pauseManagement = fl64 (pauseManagement raw / total)\<rparr>)"

section \<open>Analysis (audioAnalysis.ts)\<close>

definition roundReal :: "real \<Rightarrow> real \<Rightarrow> real" where
  \<comment> \<open>\<open>Math.round(x * k) / k\<close> on a finite \<open>x\<close>\<close>
  "roundReal k x = real_of_int (Math_round (x * k)) / k"

record VolumeResult =
  averageDb :: jsnum
  score :: int
  tag :: string

record SpeechRateResult =
  wordsPerMinute :: int
  syllablesPerSecond :: real
  score :: int
  tag :: string
  method' :: string
  transcript :: "string option"

record AccelerationResult =
  score :: jsnum
  segment1Volume :: jsnum
  segment2Volume :: jsnum
  segment1Rate :: int
  segment2Rate :: int
  isAccelerating :: bool
  tag :: string

record ResponseTimeResult =
  responseTimeMs :: int
  score :: int
  tag :: string

record PauseManagementResult =
  pauseCount :: nat
  avgPauseDuration :: real
  maxPauseDuration :: real
  pauseRatio :: real
  score :: int
  tag :: string

definition calculateSegmentDb :: "real list \<Rightarrow> jsnum" where
  "calculateSegmentDb buffer =
     (if buffer = [] then NegInf
      else Fin (20 * Math_log10 (max (rmsOf buffer) (1 / 10 ^ 10))))"

definition thresholdsOf :: "MetricConfig list \<Rightarrow> string \<Rightarrow> Thresholds \<Rightarrow> Thresholds" where
  \<comment> \<open>\<open>getMetricConfig(config, id)?.thresholds ?? fallback\<close>\<close>
  "thresholdsOf config i fallback =
     (case getMetricConfig config i of Some m \<Rightarrow> thresholds m | None \<Rightarrow> fallback)"

definition volumeScore :: "Thresholds \<Rightarrow> real \<Rightarrow> real" where
  \<comment> \<open>the \<open>if\<close> chain of \<open>analyzeVolume\<close> on a finite \<open>db\<close>\<close>
  "volumeScore t db =
     (if db \<ge> ideal t \<and> db \<le> max' t
      then (let midpoint = (ideal t + max' t) / 2
            in if db \<le> midpoint then 90 + ((db - ideal t) / (midpoint - ideal t)) * 10
               else 100 - ((db - midpoint) / (max' t - midpoint)) * 10)
      else if db > max' t then max 0 (90 - (db - max' t) * 5)
      else if db \<ge> min' t then ((db - min' t) / (ideal t - min' t)) * 90
      else 0)"

definition analyzeVolume :: "real list \<Rightarrow> MetricConfig list \<Rightarrow> real \<Rightarrow> VolumeResult" where
  \<comment> \<open>\<open>db\<close> is \<open>-Infinity\<close> for an empty buffer: every comparison fails, the score stays 0\<close>
  "analyzeVolume audioBuffer config deviceDbOffset =
     (let t = thresholdsOf config ''volume'' \<lparr>min' = - 35, ideal = - 15, max' = 0\<rparr>;
          db = jadd (calculateSegmentDb audioBuffer) (Fin deviceDbOffset);
          score = (case db of Fin d \<Rightarrow> volumeScore t d | _ \<Rightarrow> 0)
      in \<lparr>averageDb = roundTo 10 db,
          VolumeResult.score = Math_round (max 0 (min 100 score)),
          VolumeResult.tag = ''ENERGY''\<rparr>)"

definition frameOf :: "real \<Rightarrow> int" where
  \<comment> \<open>\<open>Math.floor(sampleRate * 0.02)\<close>\<close>
  "frameOf sampleRate = \<lfloor>sampleRate * 0.02\<rfloor>"

definition frameHop :: "real \<Rightarrow> int" where
  \<comment> \<open>\<open>Math.max(1, Math.floor(frame / 2))\<close>\<close>
  "frameHop sampleRate = max 1 \<lfloor>real_of_int (frameOf sampleRate) / 2\<rfloor>"

function energyFrames :: "real list \<Rightarrow> real \<Rightarrow> int \<Rightarrow> real list" where
  "energyFrames audioBuffer sampleRate i =
     (if i < int (length audioBuffer) - frameOf sampleRate
      then (blockSum audioBuffer (frameOf sampleRate) i / real_of_int (frameOf sampleRate))
             # energyFrames audioBuffer sampleRate (i + frameHop sampleRate)
      else [])"
  by pat_completeness auto
termination
  by (relation "measure (\<lambda>(audioBuffer, sampleRate, i).
        nat (int (length audioBuffer) - frameOf sampleRate - i))")
     (auto simp: frameHop_def)

declare energyFrames.simps [simp del]

definition countPeaks :: "real list \<Rightarrow> real \<Rightarrow> int \<Rightarrow> int \<Rightarrow> nat" where
  \<comment> \<open>the peak loop of both detectors: \<open>for (i = 1; i < xs.length - 1; i++)\<close> counts a local
      maximum above the threshold that lies more than \<open>gap\<close> frames after the last one\<close>
  "countPeaks xs limit gap last0 =
     fst (fold (\<lambda>i (peaks, last).
                 if xs ! i > limit \<and> xs ! i > xs ! (i - 1) \<and> xs ! i > xs ! (i + 1)
                    \<and> int i - last > gap
                 then (peaks + 1, int i) else (peaks, last))
            [1..<length xs - 1] (0, last0))"

definition detectSyllablesEnergy :: "real list \<Rightarrow> real \<Rightarrow> nat" where
  "detectSyllablesEnergy audioBuffer sampleRate =
     (case energyFrames audioBuffer sampleRate 0 of
        [] \<Rightarrow> 0
      | e # es \<Rightarrow> countPeaks (e # es) (fold max es e * 0.15) 3 (- 10))"

definition bins :: nat where
  "bins = 128"

definition spectrum :: "real list \<Rightarrow> int \<Rightarrow> int \<Rightarrow> real list" where
  \<comment> \<open>the magnitudes \<open>spec[k]\<close> of the frame that starts at \<open>i\<close>\<close>
  "spectrum audioBuffer frameSize i =
     map (\<lambda>k. let w = (2 * pi * real k) / real_of_int frameSize;
                   re = (\<Sum>n\<leftarrow>[0..<nat frameSize]. audioBuffer ! (nat i + n) * cos (w * real n));
                   im = - (\<Sum>n\<leftarrow>[0..<nat frameSize]. audioBuffer ! (nat i + n) * sin (w * real n))
               in sqrt (re * re + im * im))
         [0..<bins]"

definition fluxOf :: "real list \<Rightarrow> real list \<Rightarrow> real" where
  \<comment> \<open>the sum of the positive differences \<open>spec[k] - prev[k]\<close>\<close>
  "fluxOf spec prev = (\<Sum>(a, b)\<leftarrow>zip spec prev. if a - b > 0 then a - b else 0)"

function fluxFrames :: "real list \<Rightarrow> real \<Rightarrow> int \<Rightarrow> real list \<Rightarrow> real list" where
  "fluxFrames audioBuffer sampleRate i prev =
     (if i \<le> int (length audioBuffer) - frameOf sampleRate
      then fluxOf (spectrum audioBuffer (frameOf sampleRate) i) prev
             # fluxFrames audioBuffer sampleRate (i + frameHop sampleRate)
                 (spectrum audioBuffer (frameOf sampleRate) i)
      else [])"
  by pat_completeness auto
termination
  by (relation "measure (\<lambda>(audioBuffer, sampleRate, i, prev).
        nat (int (length audioBuffer) - frameOf sampleRate - i + 1))")
     (auto simp: frameHop_def)

declare fluxFrames.simps [simp del]

definition detectSyllablesSpectralFlux :: "real list \<Rightarrow> real \<Rightarrow> nat" where
  "detectSyllablesSpectralFlux audioBuffer sampleRate =
     (let flux = fluxFrames audioBuffer sampleRate 0 (replicate bins 0)
      in if flux = [] then 0
         else let sorted = sort flux;
                  median = sorted ! (length sorted div 2);
                  upper = sorted ! nat \<lfloor>real (length sorted) * 0.75\<rfloor>;
                  threshold = max (median * 1.5) ((if upper \<noteq> 0 then upper else median) * 0.5)
              in max 1 (countPeaks flux threshold 4 (- 5)))"

definition transcribeWordCount :: "Invoke \<Rightarrow> Invoke \<Rightarrow> (int \<times> string) option" where
  \<comment> \<open>\<open>None\<close>: the function throws (a rejected call, or no usable answer of either)\<close>
  "transcribeWordCount resultA resultB =
     (let text = (\<lambda>d. case TranscribeData.transcript d of Some t \<Rightarrow> t | None \<Rightarrow> '''');
          count = (\<lambda>d. case words d of Some n \<Rightarrow> int n | None \<Rightarrow> 0);
          positive = (\<lambda>v. case v of Some x \<Rightarrow> x > 0 | None \<Rightarrow> False)
      in case resultA of
           InvokeRejects \<Rightarrow> None
         | InvokeResult errA dataA \<Rightarrow>
             if \<not> errA \<and> dataA \<noteq> None then Some (count (the dataA), text (the dataA))
             else (case resultB of
                     InvokeRejects \<Rightarrow> None
                   | InvokeResult errB dataB \<Rightarrow>
                       if \<not> errB \<and> dataB \<noteq> None
                       then (let d = the dataB;
                                 wc = (if positive (TranscribeData.wordsPerMinute d)
                                          \<and> positive (TranscribeData.duration d)
                                       then Math_round
                                              ((the (TranscribeData.wordsPerMinute d)
                                                 * the (TranscribeData.duration d)) / 60)
                                       else count d)
                             in Some (wc, text d))
                       else None))"

definition scoreSpeechRate :: "real \<Rightarrow> MetricConfig list \<Rightarrow> real" where
  "scoreSpeechRate wpm config =
     (let t = thresholdsOf config ''speechRate'' \<lparr>min' = 90, ideal = 150, max' = 220\<rparr>
      in if wpm \<le> 0 then 0
         else if wpm < min' t then 0
         else if wpm < ideal t then ((wpm - min' t) / (ideal t - min' t)) * 100
         else 100)"

definition analyzeSpeechRate ::
  "real list \<Rightarrow> real \<Rightarrow> MetricConfig list \<Rightarrow> real \<Rightarrow> string \<Rightarrow> Blob option \<Rightarrow> real option
     \<Rightarrow> Invoke \<Rightarrow> Invoke \<Rightarrow> SpeechRateResult" where
  "analyzeSpeechRate audioBuffer sampleRate config durationSeconds meth blob stt resultA resultB =
     (let perMinute = (\<lambda>wordCount. if durationSeconds > 0
                         then Math_round ((wordCount / durationSeconds) * 60) else 0);
          (wpm0, text, usedMethod) =
            (if meth = ''deepgram-stt'' \<and> (blob \<noteq> None \<or> (stt \<noteq> None \<and> stt \<noteq> Some 0))
             then (if blob \<noteq> None \<and> stt = None
                   then (case transcribeWordCount resultA resultB of
                           None \<Rightarrow> (0, None, ''spectral-flux'')
                         | Some (wc, t) \<Rightarrow> (perMinute (real_of_int wc), Some t, meth))
                   else (perMinute (numberOf stt), None, meth))
             else (0, None, meth));
          wpm = (if wpm0 = 0
                 then (let syllables = (if usedMethod = ''spectral-flux''
                                        then detectSyllablesSpectralFlux audioBuffer sampleRate
                                        else detectSyllablesEnergy audioBuffer sampleRate);
                           perSecond = (if durationSeconds > 0
                                        then real syllables / durationSeconds else 0)
                       in Math_round ((perSecond * 60) / 1.5))
                 else wpm0);
          syllablesPerSecond = (real_of_int wpm / 60) * 1.5;
          score = scoreSpeechRate (real_of_int wpm) config
      in \<lparr>wordsPerMinute = wpm,
          syllablesPerSecond = roundReal 10 syllablesPerSecond,
          SpeechRateResult.score = Math_round (max 0 (min 100 score)),
          SpeechRateResult.tag = ''FLUENCY'', method' = usedMethod, transcript = text\<rparr>)"

definition analyzeAcceleration ::
  "real list \<Rightarrow> real \<Rightarrow> MetricConfig list \<Rightarrow> AccelerationResult" where
  "analyzeAcceleration audioBuffer sampleRate config =
     (let midpoint = int (length audioBuffer) div 2;
          seg1 = slice 0 midpoint audioBuffer;
          seg2 = sliceFrom midpoint audioBuffer;
          vol1 = calculateSegmentDb seg1;
          vol2 = calculateSegmentDb seg2;
          dur1 = real (length seg1) / sampleRate;
          dur2 = real (length seg2) / sampleRate;
          rate1 = Math_round
                    ((real (detectSyllablesSpectralFlux seg1 sampleRate) / max dur1 0.1 / 1.5) * 60);
          rate2 = Math_round
                    ((real (detectSyllablesSpectralFlux seg2 sampleRate) / max dur2 0.1 / 1.5) * 60);
          volumeIncrease = jsub vol2 vol1;
          rateIncrease = rate2 - rate1
      in \<lparr>AccelerationResult.score = jround (jmax (Fin 0) (jmin (Fin 100)
                      (jadd (Fin 50)
                         (jmax (Fin 0)
                            (jadd (jscale volumeIncrease 2)
                                  (Fin (real_of_int rateIncrease * 0.5))))))),
          segment1Volume = roundTo 10 vol1,
          segment2Volume = roundTo 10 vol2,
          segment1Rate = rate1,
          segment2Rate = rate2,
          isAccelerating = (jlt (Fin 0) volumeIncrease \<or> rateIncrease > 5),
          AccelerationResult.tag = ''DYNAMICS''\<rparr>)"

definition calculateAdaptiveNoiseFloor :: "real list \<Rightarrow> real \<Rightarrow> real" where
  "calculateAdaptiveNoiseFloor audioBuffer sampleRate =
     (let frameSamples = \<lfloor>sampleRate * 0.1\<rfloor>;
          segment = slice 0 (min frameSamples (int (length audioBuffer))) audioBuffer
      in if segment = [] then 0.01
         else max 0.005 (rmsOf segment * 3))"

definition analyzeResponseTime ::
  "real list \<Rightarrow> real \<Rightarrow> MetricConfig list \<Rightarrow> ResponseTimeResult" where
  "analyzeResponseTime audioBuffer sampleRate config =
     (let t = thresholdsOf config ''responseTime'' \<lparr>min' = 2000, ideal = 200, max' = 0\<rparr>;
          noise = calculateAdaptiveNoiseFloor audioBuffer sampleRate;
          first = (case findIndex (\<lambda>s. \<bar>s\<bar> > noise) audioBuffer of Some i \<Rightarrow> i | None \<Rightarrow> 0);
          ms = Math_round ((real first / sampleRate) * 1000);
          score = (if real_of_int ms \<le> ideal t then 100
                   else if real_of_int ms \<le> min' t
                   then 100 - ((real_of_int ms - ideal t) / (min' t - ideal t)) * 50
                   else max 0 (50 * (1 - (real_of_int ms - min' t) / 3000)))
      in \<lparr>responseTimeMs = ms, ResponseTimeResult.score = Math_round (max 0 (min 100 score)),
          ResponseTimeResult.tag = ''READINESS''\<rparr>)"

definition vadPauses :: "SpeechSegment list \<Rightarrow> real \<Rightarrow> real list" where
  \<comment> \<open>the gaps, in ms, before each segment by start time, and after the last one up to \<open>totalMs\<close>\<close>
  "vadPauses segments totalMs =
     (let sorted = sort_key start segments;
          (cursor, pausesMs) =
            fold (\<lambda>seg (cursor, pausesMs).
                    (max cursor (end' seg),
                     if start seg > cursor then pausesMs @ [start seg - cursor] else pausesMs))
                 sorted (0, [])
      in if cursor < totalMs then pausesMs @ [totalMs - cursor] else pausesMs)"

record PauseScan =
  silentFrames :: nat
  totalFrames :: nat
  currentSilent :: real
  pausesSec :: "real list"

definition pauseFrame :: "real \<Rightarrow> int" where
  \<comment> \<open>\<open>Math.floor(sampleRate * 0.05)\<close>\<close>
  "pauseFrame sampleRate = \<lfloor>sampleRate * 0.05\<rfloor>"

definition pauseStep :: "real list \<Rightarrow> real \<Rightarrow> int \<Rightarrow> PauseScan \<Rightarrow> PauseScan" where
  \<comment> \<open>the body of the frame loop of \<open>analyzePauses\<close>\<close>
  "pauseStep audioBuffer sampleRate i s =
     (let frame = pauseFrame sampleRate;
          energy = (\<Sum>j\<leftarrow>[0..<nat frame]. \<bar>audioBuffer ! (nat i + j)\<bar>) / real_of_int frame
      in if energy < 0.01
         then s\<lparr>silentFrames := silentFrames s + 1,
                currentSilent := currentSilent s + real_of_int frame / sampleRate,
                totalFrames := totalFrames s + 1\<rparr>
         else s\<lparr>pausesSec := (if currentSilent s \<ge> 0.15 then pausesSec s @ [currentSilent s]
                              else pausesSec s),
                currentSilent := 0,
                totalFrames := totalFrames s + 1\<rparr>)"

text \<open>
  The frame loop steps by \<open>frame\<close> itself, which is 0 below 20 Hz: the loop may run for
  ever, and \<open>None\<close> is the result of a call that does not return.
\<close>

partial_function (option) pauseScan ::
  "real list \<Rightarrow> real \<Rightarrow> int \<Rightarrow> PauseScan \<Rightarrow> PauseScan option" where
  "pauseScan audioBuffer sampleRate i s =
     (if i < int (length audioBuffer) - pauseFrame sampleRate
      then pauseScan audioBuffer sampleRate (i + pauseFrame sampleRate)
             (pauseStep audioBuffer sampleRate i s)
      else Some s)"

definition pauseResult ::
  "Thresholds \<Rightarrow> real \<Rightarrow> nat \<Rightarrow> real \<Rightarrow> real \<Rightarrow> PauseManagementResult" where
  \<comment> \<open>the score and the rounding at the end of \<open>analyzePauses\<close>\<close>
  "pauseResult t ratio count maxPause avgPause =
     (let score = (if ratio > 0.1 then max 0 (100 - ((ratio - 0.1) / max' t) * 100) else 100)
      in \<lparr>pauseCount = count,
          avgPauseDuration = roundReal 100 avgPause,
          maxPauseDuration = roundReal 100 maxPause,
          pauseRatio = roundReal 100 ratio,
          score = Math_round (max 0 (min 100 score)),
          tag = ''FLUIDITY''\<rparr>)"

definition analyzePauses ::
  "real list \<Rightarrow> real \<Rightarrow> MetricConfig list \<Rightarrow> VADMetrics option
     \<Rightarrow> PauseManagementResult option" where
  "analyzePauses audioBuffer sampleRate config vad =
     (let t = thresholdsOf config ''pauseManagement'' \<lparr>min' = 0, ideal = 0, max' = 2.71\<rparr>
      in if vad \<noteq> None \<and> speechSegments (the vad) \<noteq> []
         then (let ratio = 1 - max 0 (min 1 (speechRatio (the vad)));
                   totalMs = (real (length audioBuffer) / sampleRate) * 1000;
                   significant = filter (\<lambda>p. p \<ge> 150)
                                   (vadPauses (speechSegments (the vad)) totalMs)
               in Some (case significant of
                          [] \<Rightarrow> pauseResult t ratio 0 0 0
                        | p # ps \<Rightarrow>
                            pauseResult t ratio (length significant) (fold max ps p / 1000)
                              (foldl (+) 0 significant / real (length significant) / 1000)))
         else (case pauseScan audioBuffer sampleRate 0
                      \<lparr>silentFrames = 0, totalFrames = 0, currentSilent = 0, pausesSec = []\<rparr> of
                 None \<Rightarrow> None
               | Some s \<Rightarrow>
                   (let pauses = (if currentSilent s \<ge> 0.15 then pausesSec s @ [currentSilent s]
                                  else pausesSec s);
                        ratio = real (silentFrames s) / real (max 1 (totalFrames s))
                    in Some (case pauses of
                               [] \<Rightarrow> pauseResult t ratio 0 0 0
                             | p # ps \<Rightarrow>
                                 pauseResult t ratio (length pauses) (fold max ps p)
                                   (foldl (+) 0 pauses / real (length pauses))))))"

definition buildFeedback ::
  "VolumeResult \<Rightarrow> SpeechRateResult \<Rightarrow> AccelerationResult \<Rightarrow> ResponseTimeResult
     \<Rightarrow> PauseManagementResult \<Rightarrow> jsnum \<Rightarrow> string list" where
  "buildFeedback vol rate acc resp pauses overall =
     (let feedback =
            (if VolumeResult.score vol < 60
             then [''Speak louder and keep your voice energy more stable.''] else [])
            @ (if SpeechRateResult.score rate < 60
               then (if wordsPerMinute rate < 100
                     then [''Try speaking a bit faster for more natural fluency.'']
                     else [''Slow down slightly to improve clarity.''])
               else [])
            @ (if ResponseTimeResult.score resp < 60
               then [''Start speaking sooner after the prompt.''] else [])
            @ (if PauseManagementResult.score pauses < 60
               then [''Reduce long pauses to keep smoother flow.''] else [])
            @ (if jlt (AccelerationResult.score acc) (Fin 60)
               then [''Build momentum from start to finish.''] else [])
      in if feedback = []
         then [if jge overall (Fin 90) then ''Excellent work. Strong delivery and control.''
               else ''Great job. Keep this rhythm and consistency.'']
         else feedback)"

datatype EmotionalFeedback = excellent | good | poor

record Metrics =
  volume :: int
  speechRate :: int
  pauses :: int
  latency :: int
  endIntensity :: jsnum

record Normalization =
  originalLUFS :: jsnum
  calibratedLUFS :: jsnum
  finalLUFS :: jsnum
  deviceGain :: real
  normalizationGain :: real

record AnalysisResult =
  volume :: VolumeResult
  speechRate :: SpeechRateResult
  acceleration :: AccelerationResult
  responseTime :: ResponseTimeResult
  pauseManagement :: PauseManagementResult
  pauses :: PauseManagementResult
  overallScore :: jsnum
  emotionalFeedback :: EmotionalFeedback
  metrics :: Metrics
  normalization :: "Normalization option"
  feedback :: "string list"

text \<open>
  What one call works on besides its arguments: the state it reads and writes (the
  calibration storage, the two other items of the local storage, the module's cache),
  and what the outside answers during the call (the clock, the remote configuration,
  the two transcription functions).
\<close>

record Env =
  calibration :: storage
  metricConfigItem :: "LocalEntry list option"
  speechRateMethodItem :: "string option"
  configCache :: ConfigCache

record Outside =
  clock :: int
  dbResult :: DbResult
  transcribeA :: Invoke
  transcribeB :: Invoke

definition noSpeechResult :: "string \<Rightarrow> AnalysisResult" where
  \<comment> \<open>the object returned under \<open>if (!hasSpeech)\<close>\<close>
  "noSpeechResult meth =
     (let zeroPauses = \<lparr>pauseCount = 0, avgPauseDuration = 0, maxPauseDuration = 0,
                         pauseRatio = 1, score = 0, tag = ''FLUIDITY''\<rparr>
      in \<lparr>volume = \<lparr>averageDb = NegInf, VolumeResult.score = 0, VolumeResult.tag = ''ENERGY''\<rparr>,
          speechRate = \<lparr>wordsPerMinute = 0, syllablesPerSecond = 0, SpeechRateResult.score = 0,
                         SpeechRateResult.tag = ''FLUENCY'', method' = meth, transcript = None\<rparr>,
          acceleration = \<lparr>AccelerationResult.score = Fin 0, segment1Volume = Fin 0,
                           segment2Volume = Fin 0, segment1Rate = 0, segment2Rate = 0,
                           isAccelerating = False, AccelerationResult.tag = ''DYNAMICS''\<rparr>,
          responseTime = \<lparr>responseTimeMs = 0, ResponseTimeResult.score = 0,
                           ResponseTimeResult.tag = ''READINESS''\<rparr>,
          pauseManagement = zeroPauses,
          pauses = zeroPauses,
          overallScore = Fin 0,
          emotionalFeedback = poor,
          metrics = \<lparr>Metrics.volume = 0, Metrics.speechRate = 0, Metrics.pauses = 0,
                      latency = 0, endIntensity = Fin 0\<rparr>,
          normalization = None,
          feedback = [''No speech detected. Please try again and speak clearly.'']\<rparr>)"

definition processedBuffer ::
  "real list \<Rightarrow> real \<Rightarrow> string option \<Rightarrow> Outside \<Rightarrow> Env
     \<Rightarrow> real list \<times> Normalization option \<times> real \<times> storage" where
  \<comment> \<open>\<open>processed\<close>, \<open>normalization\<close> and \<open>deviceOffset\<close> after \<open>if (audio?.deviceId)\<close>\<close>
  "processedBuffer audioBuffer sampleRate dev out env =
     (if truthy dev
      then (let (n, st1) = calibrateAndNormalize audioBuffer sampleRate dev TARGET_LUFS
                             (clock out) (calibration env);
                (profile, st2) = getCalibrationProfile (the dev) (clock out) st1
            in (CalibrateResult.normalized n,
                Some \<lparr>originalLUFS = roundTo 10 (CalibrateResult.originalLUFS n),
                      calibratedLUFS = roundTo 10 (CalibrateResult.calibratedLUFS n),
                      finalLUFS = roundTo 10 (CalibrateResult.finalLUFS n),
                      deviceGain = roundReal 100 (CalibrateResult.deviceGain n),
                      normalizationGain = roundReal 100 (CalibrateResult.normalizationGain n)\<rparr>,
                (case profile of
                   Some p \<Rightarrow> TARGET_LUFS - numberOf (referenceLevel p)
                 | None \<Rightarrow> 0),
                st2))
      else (audioBuffer, None, 0, calibration env))"

definition analyzeAudioAsync ::
  "real list \<Rightarrow> real \<Rightarrow> AudioOptions option \<Rightarrow> Outside \<Rightarrow> Env
     \<Rightarrow> (AnalysisResult \<times> Env) option" where
  "analyzeAudioAsync audioBuffer sampleRate audio out env =
     (let (config, cache) = getConfigAsync (metricConfigItem env) (dbResult out) (clock out)
                              (configCache env);
          meth = getSpeechRateMethod config (speechRateMethodItem env);
          vad = (case audio of Some a \<Rightarrow> vadMetrics a | None \<Rightarrow> None);
          hasSpeech = (case vad of
                         Some v \<Rightarrow> speechRatio v > 0.02 \<and> totalSpeechTime v > 200
                       | None \<Rightarrow> True)
      in if \<not> hasSpeech then Some (noSpeechResult meth, env\<lparr>configCache := cache\<rparr>)
         else
           (let dev = (case audio of Some a \<Rightarrow> AudioOptions.deviceId a | None \<Rightarrow> None);
                (processed, norm, deviceOffset, st) =
                  processedBuffer audioBuffer sampleRate dev out env;
                vol = analyzeVolume audioBuffer config deviceOffset;
                durationTotal = real (length processed) / sampleRate;
                durationSeconds =
                  (case vad of
                     Some v \<Rightarrow> max 0.1 (durationTotal
                                          - (durationTotal - totalSpeechTime v / 1000) / 2)
                   | None \<Rightarrow> max 0.1 durationTotal);
                rate = analyzeSpeechRate processed sampleRate config durationSeconds meth
                         (case audio of Some a \<Rightarrow> audioBlob a | None \<Rightarrow> None)
                         (case audio of Some a \<Rightarrow> sttWordCount a | None \<Rightarrow> None)
                         (transcribeA out) (transcribeB out);
                acc = analyzeAcceleration processed sampleRate config;
                resp = analyzeResponseTime processed sampleRate config
            in case analyzePauses processed sampleRate config vad of
                 None \<Rightarrow> None
               | Some pm \<Rightarrow>
                   (let weights = normalizedWeights config;
                        overall =
                          jround
                            (jadd (jadd (jadd (jadd
                               (Fin (real_of_int (VolumeResult.score vol) * Weights.volume weights))
                               (Fin (real_of_int (SpeechRateResult.score rate)
                                       * Weights.speechRate weights)))
                               (jscale (AccelerationResult.score acc) (Weights.acceleration weights)))
                               (Fin (real_of_int (ResponseTimeResult.score resp)
                                       * Weights.responseTime weights)))
                               (Fin (real_of_int (PauseManagementResult.score pm)
                                       * Weights.pauseManagement weights)))
                    in Some
                         (\<lparr>volume = vol, speechRate = rate, acceleration = acc,
                           responseTime = resp, pauseManagement = pm, pauses = pm,
                           overallScore = overall,
                           emotionalFeedback =
                             (if jge overall (Fin 70) then excellent
                              else if jge overall (Fin 40) then good else poor),
                           metrics =
                             \<lparr>Metrics.volume = VolumeResult.score vol,
                              Metrics.speechRate = SpeechRateResult.score rate,
                              Metrics.pauses = PauseManagementResult.score pm,
                              latency = ResponseTimeResult.score resp,
                              endIntensity = AccelerationResult.score acc\<rparr>,
                           normalization = norm,
                           feedback = buildFeedback vol rate acc resp pm overall\<rparr>,
                          env\<lparr>calibration := st, configCache := cache\<rparr>))))"


section \<open>Vocabulary of the statements\<close>

text \<open>
  Reading functions used to state the properties; none of them changes the storage.
\<close>

definition profileFor :: "string \<Rightarrow> storage \<Rightarrow> CalibrationProfile option" where
  \<comment> \<open>the profile a lookup of \<open>dev\<close> finds: the first one with that \<open>deviceId\<close>\<close>
  "profileFor dev st = find (\<lambda>p. deviceId p = dev) (getCalibrationProfiles st)"

definition storedHistory :: "string \<Rightarrow> storage \<Rightarrow> RecordingStats list option" where
  "storedHistory dev st = map_option historyOf (profileFor dev st)"

definition lastN :: "nat \<Rightarrow> 'a list \<Rightarrow> 'a list" where
  \<comment> \<open>the \<open>n\<close> most recent entries of a list that grows at its end, in order\<close>
  "lastN n xs = drop (length xs - n) xs"

fun trackAll :: "(string \<times> TrackedStats \<times> int) list \<Rightarrow> storage \<Rightarrow> storage" where
  \<comment> \<open>a sequence of \<open>trackRecording\<close> calls, each with its device, its stats and its time\<close>
  "trackAll [] st = st"
| "trackAll ((dev, stats, now) # rest) st = trackAll rest (trackRecording dev stats now st)"

definition entriesFor :: "string \<Rightarrow> (string \<times> TrackedStats \<times> int) list \<Rightarrow> RecordingStats list" where
  \<comment> \<open>the history entries that the calls for device \<open>dev\<close> append, in call order\<close>
  "entriesFor dev recs =
     map (\<lambda>(d, stats, now). historyEntry stats now) (filter (\<lambda>(d, stats, now). d = dev) recs)"

definition populationStd :: "real list \<Rightarrow> real" where
  \<comment> \<open>the population standard deviation, as the specification names it\<close>
  "populationStd xs =
     (let n = real (length xs); mean = sum_list xs / n
      in sqrt ((\<Sum>x\<leftarrow>xs. (x - mean) ^ 2) / n))"

definition lufsValues :: "CalibrationProfile \<Rightarrow> real list" where
  "lufsValues p = map (\<lambda>h. numberOf (RecordingStats.originalLUFS h)) (historyOf p)"

definition lufsDeviation :: "CalibrationProfile \<Rightarrow> real" where
  \<comment> \<open>\<open>lufsVar\<close>: the standard deviation that \<open>calcStd\<close> computes from the stored levels\<close>
  "lufsDeviation p = calcStd (map RecordingStats.originalLUFS (historyOf p))"

definition noiseDeviation :: "CalibrationProfile \<Rightarrow> real" where
  \<comment> \<open>\<open>noiseVar\<close>\<close>
  "noiseDeviation p = calcStd (map RecordingStats.noiseFloor (historyOf p))"

definition daysSince :: "int \<Rightarrow> CalibrationProfile \<Rightarrow> real" where
  "daysSince now p = real_of_int (now - createdAt p) / (1000 * 60 * 60 * 24)"

definition suggestion :: "string \<Rightarrow> int \<Rightarrow> storage \<Rightarrow> RecalibrationSuggestion" where
  "suggestion dev now st = fst (checkRecalibrationNeeded dev now st)"

definition rawWeight :: "MetricConfig list \<Rightarrow> string \<Rightarrow> real" where
  \<comment> \<open>the resolved weight of a metric, 0 when the configuration has no such metric\<close>
  "rawWeight config i =
     (case getMetricConfig config i of Some m \<Rightarrow> MetricConfig.weight m | None \<Rightarrow> 0)"

definition rawTotal :: "MetricConfig list \<Rightarrow> real" where
  "rawTotal config =
     rawWeight config ''volume'' + rawWeight config ''speechRate''
       + rawWeight config ''acceleration'' + rawWeight config ''responseTime''
       + rawWeight config ''pauseManagement''"

definition weightSum :: "Weights \<Rightarrow> real" where
  "weightSum w =
     Weights.volume w + Weights.speechRate w + Weights.acceleration w
       + Weights.responseTime w + Weights.pauseManagement w"

definition addedWeights :: "Weights \<Rightarrow> real" where
  \<comment> \<open>the five weights added as JavaScript adds them, from left to right\<close>
  "addedWeights w =
     fl64 (fl64 (fl64 (fl64 (Weights.volume w + Weights.speechRate w) + Weights.acceleration w)
                  + Weights.responseTime w) + Weights.pauseManagement w)"

definition rowConfig :: "ScoringRow \<Rightarrow> string \<Rightarrow> MetricConfig \<Rightarrow> MetricConfig" where
  \<comment> \<open>what a remote row makes of the configuration \<open>prev\<close> of metric \<open>i\<close>\<close>
  "rowConfig row i prev =
     prev\<lparr>weight := real_of_int (Math_round (fl64 (ScoringRow.weight row * 100))),
          thresholds :=
            \<lparr>min' = (case min_value row of Some v \<Rightarrow> v | None \<Rightarrow> min' (thresholds prev)),
             ideal = (case max_value row of Some v \<Rightarrow> v | None \<Rightarrow> ideal (thresholds prev)),
             max' = (if i = ''pauseManagement''
                     then (case max_value row of Some v \<Rightarrow> v | None \<Rightarrow> max' (thresholds prev))
                     else max' (thresholds prev))\<rparr>\<rparr>"

definition keyed :: "(string \<times> MetricConfig) list \<Rightarrow> bool" where
  \<comment> \<open>every entry of the \<open>Map\<close> sits under its own \<open>id\<close>\<close>
  "keyed base = list_all (\<lambda>(k, m). id' m = k) base"

definition resolvedConfig :: "Outside \<Rightarrow> Env \<Rightarrow> MetricConfig list" where
  \<comment> \<open>the configuration that a call resolves\<close>
  "resolvedConfig out env =
     fst (getConfigAsync (metricConfigItem env) (dbResult out) (clock out) (configCache env))"

definition resolvedMethod :: "Outside \<Rightarrow> Env \<Rightarrow> string" where
  "resolvedMethod out env =
     getSpeechRateMethod (resolvedConfig out env) (speechRateMethodItem env)"

definition calibratedBuffer ::
  "real list \<Rightarrow> real \<Rightarrow> string option \<Rightarrow> Outside \<Rightarrow> Env \<Rightarrow> real list" where
  \<comment> \<open>the processed buffer: what \<open>calibrateAndNormalize\<close> returns as \<open>normalized\<close>\<close>
  "calibratedBuffer audioBuffer sampleRate dev out env =
     CalibrateResult.normalized
       (fst (calibrateAndNormalize audioBuffer sampleRate dev TARGET_LUFS (clock out)
               (calibration env)))"

definition deviceOffsetOf ::
  "real list \<Rightarrow> real \<Rightarrow> string option \<Rightarrow> Outside \<Rightarrow> Env \<Rightarrow> real" where
  "deviceOffsetOf audioBuffer sampleRate dev out env =
     fst (snd (snd (processedBuffer audioBuffer sampleRate dev out env)))"

definition profileOffset :: "string \<Rightarrow> storage \<Rightarrow> real" where
  \<comment> \<open>\<open>TARGET_LUFS - referenceLevel\<close> of the stored profile, 0 without one\<close>
  "profileOffset dev st =
     (case profileFor dev st of
        Some p \<Rightarrow> TARGET_LUFS - numberOf (referenceLevel p)
      | None \<Rightarrow> 0)"

definition speechDuration :: "real list \<Rightarrow> real \<Rightarrow> VADMetrics option \<Rightarrow> real" where
  \<comment> \<open>\<open>durationSeconds\<close> of a call\<close>
  "speechDuration processed sampleRate vad =
     (let durationTotal = real (length processed) / sampleRate
      in case vad of
           Some v \<Rightarrow> max 0.1 (durationTotal - (durationTotal - totalSpeechTime v / 1000) / 2)
         | None \<Rightarrow> max 0.1 durationTotal)"

definition speechPresent :: "VADMetrics option \<Rightarrow> bool" where
  \<comment> \<open>\<open>hasSpeech\<close>\<close>
  "speechPresent vad =
     (case vad of
        Some v \<Rightarrow> speechRatio v > 0.02 \<and> totalSpeechTime v > 200
      | None \<Rightarrow> True)"

text \<open>Sample data for the concrete instances.\<close>

definition demoStats :: "real \<Rightarrow> int \<Rightarrow> RecordingStats" where
  "demoStats lufs t =
     \<lparr>timestamp = t, RecordingStats.originalLUFS = Some lufs,
      RecordingStats.calibratedLUFS = Some (- 23), RecordingStats.finalLUFS = Some (- 23),
      RecordingStats.noiseFloor = Some (- 60)\<rparr>"

definition demoProfile :: "string \<Rightarrow> RecordingStats list \<Rightarrow> CalibrationProfile" where
  "demoProfile dev h =
     \<lparr>deviceId = dev, deviceLabel = ''Microphone'', noiseFloor = Some (- 60),
      referenceLevel = Some (- 23), gainAdjustment = 10, createdAt = 0, lastUsed = 0,
      recordingHistory = Some h\<rparr>"

definition demoTracked :: TrackedStats where
  "demoTracked =
     \<lparr>TrackedStats.originalLUFS = Fin (- 30), TrackedStats.calibratedLUFS = Fin (- 24),
      TrackedStats.finalLUFS = Fin (- 23), TrackedStats.noiseFloor = NegInf\<rparr>"

definition demoRow :: ScoringRow where
  \<comment> \<open>the seeded row (volume, 0.20, -45, -20); the weight is the double nearest to 0.2\<close>
  "demoRow = \<lparr>metric_name = ''volume'', weight = 3602879701896397 / 18014398509481984,
               min_value = Some (- 45), max_value = Some (- 20)\<rparr>"

definition lowRow :: ScoringRow where
  \<comment> \<open>a row of weight 0.015, that is, of the double nearest to it\<close>
  "lowRow = \<lparr>metric_name = ''volume'', weight = 1080863910568919 / 72057594037927936,
              min_value = None, max_value = None\<rparr>"

definition quietLevel :: real where
  "quietLevel = - 14"

definition loudLevel :: real where
  \<comment> \<open>-3.9999999999999996, the double next to -4\<close>
  "loudLevel = - (9007199254740991 / 2251799813685248)"

definition level501 :: real where
  \<comment> \<open>5.01, that is, the double nearest to it\<close>
  "level501 = 2820379266640773 / 562949953421312"

definition driftProfile :: CalibrationProfile where
  "driftProfile =
     demoProfile ''mic'' [demoStats quietLevel 1, demoStats loudLevel 2,
                          demoStats quietLevel 3, demoStats loudLevel 4]"

definition halfVolumeEntry :: LocalEntry where
  \<comment> \<open>the local override \<open>[{ "id": "volume", "enabled": true, "weight": 0.5 }]\<close>\<close>
  "halfVolumeEntry = \<lparr>LocalEntry.id' = Some ''volume'', LocalEntry.weight = Some 0.5,
                       enabled = True, LocalEntry.thresholds = None,
                       LocalEntry.method' = None\<rparr>"

definition halfVolume :: MetricConfig where
  "halfVolume = \<lparr>id' = ''volume'', weight = 0.5,
                  thresholds = \<lparr>min' = - 35, ideal = - 15, max' = 0\<rparr>, method' = None\<rparr>"

definition demoEnv :: Env where
  "demoEnv = \<lparr>calibration = Some [demoProfile ''mic'' []], metricConfigItem = None,
               speechRateMethodItem = None,
               configCache = \<lparr>cachedConfig = None, cachedAt = 0\<rparr>\<rparr>"

definition demoOutside :: Outside where
  "demoOutside = \<lparr>clock = 0, dbResult = Rejected, transcribeA = InvokeRejects,
                   transcribeB = InvokeRejects\<rparr>"

definition demoAudio :: AudioOptions where
  "demoAudio = \<lparr>audioBlob = None, audioBase64 = None, mimeType = None,
                 deviceId = Some ''mic'', vadMetrics = None, sttWordCount = None\<rparr>"

definition silentVad :: VADMetrics where
  "silentVad = \<lparr>speechSegments = [], totalSpeechTime = 0, totalSilenceTime = 1000,
                 speechRatio = 0, isSpeaking = False, speechProbability = 0\<rparr>"

definition silentAudio :: AudioOptions where
  "silentAudio = \<lparr>audioBlob = None, audioBase64 = None, mimeType = None,
                   deviceId = Some ''mic'', vadMetrics = Some silentVad, sttWordCount = None\<rparr>"

section \<open>Properties of the rounding\<close>

lemma roundEven_near: "\<bar>y - real_of_int m\<bar> < 1 / 2 \<Longrightarrow> roundEven y = m"
proof -
  assume a: "\<bar>y - real_of_int m\<bar> < 1 / 2"
  show ?thesis
  proof (cases "real_of_int m \<le> y")
    case True
    then have "\<lfloor>y\<rfloor> = m" using a by (intro floor_unique) auto
    then show ?thesis using a True by (simp add: roundEven_def Let_def)
  next
    case False
    then have f: "\<lfloor>y\<rfloor> = m - 1" using a by (intro floor_unique) auto
    then have "y - real_of_int (m - 1) > 1 / 2" using a False by auto
    then show ?thesis using f by (simp add: roundEven_def Let_def)
  qed
qed

lemma roundEven_tie_even: "y = real_of_int m + 1 / 2 \<Longrightarrow> even m \<Longrightarrow> roundEven y = m"
proof -
  assume a: "y = real_of_int m + 1 / 2" and e: "even m"
  have "\<lfloor>y\<rfloor> = m" using a by (intro floor_unique) auto
  then show ?thesis using a e by (simp add: roundEven_def Let_def)
qed

lemma roundEven_int: "roundEven (real_of_int j) = j"
  by (rule roundEven_near) simp

lemma roundEven_error: "\<bar>real_of_int (roundEven y) - y\<bar> \<le> 1 / 2"
proof -
  have "real_of_int \<lfloor>y\<rfloor> \<le> y" "y < real_of_int \<lfloor>y\<rfloor> + 1" by linarith+
  then show ?thesis by (auto simp: roundEven_def Let_def)
qed

lemma roundEven_nonneg: "0 \<le> y \<Longrightarrow> 0 \<le> roundEven y"
proof -
  assume "0 \<le> y"
  then have "0 \<le> \<lfloor>y\<rfloor>" by simp
  then show ?thesis by (auto simp: roundEven_def Let_def)
qed

lemma ulpExp_normal:
  assumes "2 powr real_of_int k \<le> \<bar>x\<bar>" and "\<bar>x\<bar> < 2 powr real_of_int (k + 1)" and "- 1022 \<le> k"
  shows "ulpExp x = k - 52"
proof -
  have "(0::real) < 2 powr real_of_int k" by simp
  then have pos: "0 < \<bar>x\<bar>" using assms(1) by linarith
  have "\<lfloor>log 2 \<bar>x\<bar>\<rfloor> = k"
    using assms(1,2) pos by (simp add: floor_log_eq_powr_iff)
  then show ?thesis using assms(3) by (simp add: ulpExp_def)
qed

lemma fl64_eval:
  assumes "2 powr real_of_int (e + 52) \<le> \<bar>x\<bar>" and "\<bar>x\<bar> < 2 powr real_of_int (e + 53)"
    and "- 1074 \<le> e" and "p = 2 powr real_of_int e"
    and "\<bar>x / p - real_of_int m\<bar> < 1 / 2"
  shows "fl64 x = real_of_int m * p"
proof -
  have "ulpExp x = (e + 52) - 52"
    using assms(1,2,3) by (intro ulpExp_normal) (simp_all add: add.commute add.left_commute)
  then have u: "ulpExp x = e" by simp
  have "(0::real) < 2 powr real_of_int (e + 52)" by simp
  then have "x \<noteq> 0" using assms(1) by auto
  then show ?thesis using u assms(4) roundEven_near [OF assms(5)] by (simp add: fl64_def)
qed

lemma fl64_eval_tie:
  assumes "2 powr real_of_int (e + 52) \<le> \<bar>x\<bar>" and "\<bar>x\<bar> < 2 powr real_of_int (e + 53)"
    and "- 1074 \<le> e" and "p = 2 powr real_of_int e"
    and "x / p = real_of_int m + 1 / 2" and "even m"
  shows "fl64 x = real_of_int m * p"
proof -
  have "ulpExp x = (e + 52) - 52"
    using assms(1,2,3) by (intro ulpExp_normal) (simp_all add: add.commute add.left_commute)
  then have u: "ulpExp x = e" by simp
  have "(0::real) < 2 powr real_of_int (e + 52)" by simp
  then have "x \<noteq> 0" using assms(1) by auto
  then show ?thesis using u assms(4) roundEven_tie_even [OF assms(5,6)] by (simp add: fl64_def)
qed

text \<open>
  The two rules that evaluate a rounding: \<open>x\<close> lies in the binade whose last place is
  \<open>2 powr e\<close>, and \<open>y\<close>, a multiple of that last place, is less than half of it away, or
  exactly half of it below \<open>x\<close> with an even significand.
\<close>

lemma fl64_near:
  assumes "y = real_of_int m * 2 powr real_of_int e"
    and "2 powr real_of_int (e + 52) \<le> \<bar>x\<bar>" and "\<bar>x\<bar> < 2 powr real_of_int (e + 53)"
    and "- 1074 \<le> e"
    and "\<bar>x - y\<bar> < 2 powr real_of_int e / 2"
  shows "fl64 x = y"
proof -
  define p where "p = 2 powr real_of_int e"
  have p: "0 < p" by (simp add: p_def)
  have "x / p - real_of_int m = (x - y) / p"
    using p by (simp add: assms(1) p_def diff_divide_distrib)
  then have "\<bar>x / p - real_of_int m\<bar> = \<bar>x - y\<bar> / p" using p by simp
  also have "\<dots> < (p / 2) / p"
    using assms(5) p by (intro divide_strict_right_mono) (simp_all add: p_def)
  finally have "\<bar>x / p - real_of_int m\<bar> < 1 / 2" using p by simp
  then have "fl64 x = real_of_int m * p"
    by (intro fl64_eval [OF assms(2,3,4)]) (simp_all add: p_def)
  then show ?thesis by (simp add: assms(1) p_def)
qed

lemma fl64_tie:
  assumes "y = real_of_int m * 2 powr real_of_int e"
    and "2 powr real_of_int (e + 52) \<le> \<bar>x\<bar>" and "\<bar>x\<bar> < 2 powr real_of_int (e + 53)"
    and "- 1074 \<le> e"
    and "x - y = 2 powr real_of_int e / 2" and "even m"
  shows "fl64 x = y"
proof -
  define p where "p = 2 powr real_of_int e"
  have p: "0 < p" by (simp add: p_def)
  have "x = y + p / 2" using assms(5) by (simp add: p_def)
  then have "x / p = real_of_int m + 1 / 2"
    using p by (simp add: assms(1) p_def add_divide_distrib)
  then have "fl64 x = real_of_int m * p"
    by (intro fl64_eval_tie [OF assms(2,3,4)]) (simp_all add: p_def assms(6))
  then show ?thesis by (simp add: assms(1) p_def)
qed

text \<open>A value with a significand below \<open>2^53\<close> and a last place in range is a double.\<close>

lemma fl64_exact:
  assumes "\<bar>n\<bar> < 2 ^ 53" and "- 1074 \<le> e"
  shows "fl64 (real_of_int n * 2 powr real_of_int e) = real_of_int n * 2 powr real_of_int e"
proof (cases "n = 0")
  case True then show ?thesis by (simp add: fl64_def)
next
  case False
  define x where "x = real_of_int n * 2 powr real_of_int e"
  have x0: "x \<noteq> 0" using False by (simp add: x_def)
  have "1 \<le> \<bar>n\<bar>" using False by simp
  then have "real_of_int 1 \<le> real_of_int \<bar>n\<bar>" by (simp only: of_int_le_iff)
  then have n1: "1 \<le> \<bar>real_of_int n\<bar>" by simp
  define P where "P = (53::nat)"
  have "real_of_int \<bar>n\<bar> < real_of_int (2 ^ P)"
    using assms(1) by (simp only: of_int_less_iff P_def)
  then have "\<bar>real_of_int n\<bar> < 2 ^ P" by simp
  then have "log 2 \<bar>real_of_int n\<bar> < log 2 (2 ^ P)"
    using n1 by (subst log_less_cancel_iff) auto
  also have "log 2 (2 ^ P) = real P" by (simp add: log_nat_power)
  finally have l53: "log 2 \<bar>real_of_int n\<bar> < 53" by (simp add: P_def)
  have l0: "0 \<le> log 2 \<bar>real_of_int n\<bar>" using n1 by simp
  define k where "k = \<lfloor>log 2 \<bar>real_of_int n\<bar>\<rfloor>"
  have k: "0 \<le> k" "k \<le> 52"
    using l0 l53 by (auto simp: k_def floor_less_iff intro: zero_le_floor [THEN iffD2])
  have "\<bar>x\<bar> = \<bar>real_of_int n\<bar> * 2 powr real_of_int e" by (simp add: x_def abs_mult)
  then have "log 2 \<bar>x\<bar> = log 2 \<bar>real_of_int n\<bar> + real_of_int e"
    using n1 False by (simp add: log_mult)
  then have "\<lfloor>log 2 \<bar>x\<bar>\<rfloor> = k + e" by (simp add: k_def)
  then have E: "ulpExp x = max (k + e - 52) (- 1074)" by (simp add: ulpExp_def)
  define d where "d = nat (e - ulpExp x)"
  have le: "ulpExp x \<le> e" using E k assms(2) by simp
  then have d: "real_of_int e = real_of_int (ulpExp x) + real d" by (simp add: d_def)
  define q where "q = 2 powr real_of_int (ulpExp x)"
  have q: "0 < q" by (simp add: q_def)
  have "2 powr real_of_int e = 2 powr real_of_int (ulpExp x) * 2 powr real d"
    by (simp only: d powr_add)
  then have p: "2 powr real_of_int e = q * 2 ^ d"
    by (simp add: powr_realpow q_def)
  have xq: "x = real_of_int (n * 2 ^ d) * q"
    unfolding x_def p by simp
  then have "x / q = real_of_int (n * 2 ^ d)" using q by simp
  then have "roundEven (x / q) = n * 2 ^ d"
    by (simp only: roundEven_int)
  then have "fl64 x = real_of_int (n * 2 ^ d) * q"
    using x0 by (simp add: fl64_def q_def)
  then have "fl64 x = x" using xq by simp
  then show ?thesis by (simp only: x_def)
qed

lemma fl64_int: "\<bar>n\<bar> < 2 ^ 53 \<Longrightarrow> fl64 (real_of_int n) = real_of_int n"
  using fl64_exact [of n 0] by simp

lemma fl64_frac:
  assumes "\<bar>n\<bar> < 2 ^ 53" and "j \<le> 1074"
  shows "fl64 (real_of_int n / 2 ^ j) = real_of_int n / 2 ^ j"
proof -
  have "2 powr real_of_int (- int j) = 1 / 2 ^ j"
    by (simp add: powr_minus_divide powr_realpow)
  then show ?thesis using fl64_exact [of n "- int j"] assms by simp
qed

lemma fl64_zero [simp]: "fl64 0 = 0"
  by (simp add: fl64_def)

lemma fl64_one [simp]: "fl64 1 = 1"
  using fl64_int [of 1] by simp

lemma fl64_numeral [simp]: "numeral k < (2::int) ^ 53 \<Longrightarrow> fl64 (numeral k) = numeral k"
  using fl64_int [of "numeral k"] by simp

lemma fl64_neg_numeral [simp]:
  "numeral k < (2::int) ^ 53 \<Longrightarrow> fl64 (- numeral k) = - numeral k"
  using fl64_int [of "- numeral k"] by simp

lemma fl64_nonneg: "0 \<le> x \<Longrightarrow> 0 \<le> fl64 x"
  by (auto simp: fl64_def intro!: mult_nonneg_nonneg roundEven_nonneg divide_nonneg_nonneg)

text \<open>
  The error of a rounding: half a unit in the last place, which is at most \<open>2^-53\<close> of the
  magnitude in the normal range and \<open>2^-1075\<close> below it.
\<close>

lemma fl64_error: "\<bar>fl64 x - x\<bar> \<le> \<bar>x\<bar> / 2 ^ 53 + 1 / 2 ^ 1075"
proof (cases "x = 0")
  case True then show ?thesis by (simp add: fl64_def)
next
  case False
  define p where "p = 2 powr real_of_int (ulpExp x)"
  have p: "0 < p" by (simp add: p_def)
  define r where "r = real_of_int (roundEven (x / p))"
  have "\<bar>r - x / p\<bar> \<le> 1 / 2" unfolding r_def by (rule roundEven_error)
  then have "\<bar>r - x / p\<bar> * p \<le> 1 / 2 * p"
    using p by (intro mult_right_mono) auto
  moreover have "\<bar>r - x / p\<bar> * p = \<bar>(r - x / p) * p\<bar>"
    using p by (simp add: abs_mult)
  moreover have "(r - x / p) * p = r * p - x"
    using p by (simp add: left_diff_distrib)
  ultimately have "\<bar>r * p - x\<bar> \<le> p / 2" by simp
  moreover have "fl64 x = r * p" using False by (simp add: fl64_def p_def r_def)
  ultimately have e: "\<bar>fl64 x - x\<bar> \<le> p / 2" by simp
  show ?thesis
  proof (cases "\<lfloor>log 2 \<bar>x\<bar>\<rfloor> - 52 \<ge> - 1074")
    case True
    then have "ulpExp x = \<lfloor>log 2 \<bar>x\<bar>\<rfloor> - 52" by (simp add: ulpExp_def)
    then have "p = 2 powr (real_of_int \<lfloor>log 2 \<bar>x\<bar>\<rfloor> - 52)" by (simp add: p_def)
    also have "\<dots> \<le> 2 powr (log 2 \<bar>x\<bar> - 52)" by (intro powr_mono) auto
    also have "\<dots> = \<bar>x\<bar> / 2 ^ 52" using False by (simp add: powr_diff)
    finally have "p / 2 \<le> \<bar>x\<bar> / 2 ^ 53" by simp
    moreover have "(0::real) \<le> 1 / 2 ^ 1075" by simp
    ultimately show ?thesis using e by linarith
  next
    case False
    then have "ulpExp x = - 1074" by (simp add: ulpExp_def)
    then have "p = 1 / 2 ^ 1074" by (simp add: p_def powr_minus_divide)
    then have "p / 2 = 1 / 2 ^ 1075" by simp
    moreover have "0 \<le> \<bar>x\<bar> / 2 ^ 53" by simp
    ultimately show ?thesis using e by linarith
  qed
qed

lemma fl64_error': "\<bar>fl64 x - x\<bar> \<le> \<bar>x\<bar> / 2 ^ 53 + 1 / 2 ^ 100"
proof -
  have "(1::real) / 2 ^ 1075 \<le> 1 / 2 ^ 100"
    by (intro divide_left_mono power_increasing) simp_all
  then show ?thesis using fl64_error [of x] by linarith
qed

lemma fl64_upper: "0 \<le> x \<Longrightarrow> fl64 x \<le> x + x / 2 ^ 53 + 1 / 2 ^ 100"
  using fl64_error' [of x] by simp

lemma fl64_lower: "0 \<le> x \<Longrightarrow> x - x / 2 ^ 53 - 1 / 2 ^ 100 \<le> fl64 x"
  using fl64_error' [of x] by simp

text \<open>
  Five non-negative numbers added from left to right, every sum rounded: the result is
  within 5 parts in \<open>2^53\<close> of the exact sum.
\<close>

lemma sum_chain:
  fixes w1 w2 w3 w4 w5 :: real
  assumes "0 \<le> w1" "0 \<le> w2" "0 \<le> w3" "0 \<le> w4" "0 \<le> w5"
    and S: "S = w1 + w2 + w3 + w4 + w5"
    and s: "s = fl64 (fl64 (fl64 (fl64 (w1 + w2) + w3) + w4) + w5)"
  shows "0 \<le> s" and "s \<le> S + 5 * S / 2 ^ 53 + 1 / 2 ^ 97"
    and "S - 5 * S / 2 ^ 53 - 1 / 2 ^ 97 \<le> s"
proof -
  define s1 where "s1 = fl64 (w1 + w2)"
  define s2 where "s2 = fl64 (s1 + w3)"
  define s3 where "s3 = fl64 (s2 + w4)"
  have s': "s = fl64 (s3 + w5)" by (simp add: s s1_def s2_def s3_def)
  have n1: "0 \<le> s1" unfolding s1_def using assms(1-5) by (intro fl64_nonneg) simp
  have n2: "0 \<le> s2" unfolding s2_def using assms(1-5) n1 by (intro fl64_nonneg) simp
  have n3: "0 \<le> s3" unfolding s3_def using assms(1-5) n2 by (intro fl64_nonneg) simp
  show n4: "0 \<le> s" unfolding s' using assms(1-5) n3 by (intro fl64_nonneg) simp
  have u1: "s1 \<le> (w1 + w2) + (w1 + w2) / 2 ^ 53 + 1 / 2 ^ 100"
    unfolding s1_def using assms(1-5) by (intro fl64_upper) simp
  have u2: "s2 \<le> (s1 + w3) + (s1 + w3) / 2 ^ 53 + 1 / 2 ^ 100"
    unfolding s2_def using assms(1-5) n1 by (intro fl64_upper) simp
  have u3: "s3 \<le> (s2 + w4) + (s2 + w4) / 2 ^ 53 + 1 / 2 ^ 100"
    unfolding s3_def using assms(1-5) n2 by (intro fl64_upper) simp
  have u4: "s \<le> (s3 + w5) + (s3 + w5) / 2 ^ 53 + 1 / 2 ^ 100"
    unfolding s' using assms(1-5) n3 by (intro fl64_upper) simp
  have l1: "(w1 + w2) - (w1 + w2) / 2 ^ 53 - 1 / 2 ^ 100 \<le> s1"
    unfolding s1_def using assms(1-5) by (intro fl64_lower) simp
  have l2: "(s1 + w3) - (s1 + w3) / 2 ^ 53 - 1 / 2 ^ 100 \<le> s2"
    unfolding s2_def using assms(1-5) n1 by (intro fl64_lower) simp
  have l3: "(s2 + w4) - (s2 + w4) / 2 ^ 53 - 1 / 2 ^ 100 \<le> s3"
    unfolding s3_def using assms(1-5) n2 by (intro fl64_lower) simp
  have l4: "(s3 + w5) - (s3 + w5) / 2 ^ 53 - 1 / 2 ^ 100 \<le> s"
    unfolding s' using assms(1-5) n3 by (intro fl64_lower) simp
  show "s \<le> S + 5 * S / 2 ^ 53 + 1 / 2 ^ 97"
    using u1 u2 u3 u4 assms(1-5) unfolding S by (simp add: field_simps)
  show "S - 5 * S / 2 ^ 53 - 1 / 2 ^ 97 \<le> s"
    using l1 l2 l3 l4 assms(1-5) unfolding S by (simp add: field_simps)
qed

text \<open>
  The five quotients by \<open>max 1\<close> of that sum, every quotient rounded: when the exact sum is
  at least 1, the quotients add up to 1 within \<open>2^-50\<close>.
\<close>

lemma normalized_sum:
  fixes w1 w2 w3 w4 w5 :: real
  assumes w: "0 \<le> w1" "0 \<le> w2" "0 \<le> w3" "0 \<le> w4" "0 \<le> w5"
    and S: "1 \<le> w1 + w2 + w3 + w4 + w5"
    and total: "t = max 1 (fl64 (fl64 (fl64 (fl64 (w1 + w2) + w3) + w4) + w5))"
  shows "\<bar>fl64 (w1 / t) + fl64 (w2 / t) + fl64 (w3 / t) + fl64 (w4 / t) + fl64 (w5 / t) - 1\<bar>
           \<le> 1 / 2 ^ 50"
proof -
  define S where "S = w1 + w2 + w3 + w4 + w5"
  define s where "s = fl64 (fl64 (fl64 (fl64 (w1 + w2) + w3) + w4) + w5)"
  have up: "s \<le> S + 5 * S / 2 ^ 53 + 1 / 2 ^ 97" and lo: "S - 5 * S / 2 ^ 53 - 1 / 2 ^ 97 \<le> s"
    using sum_chain [OF w S_def s_def] by simp_all
  have t: "t = max 1 s" by (simp add: total s_def)
  have t1: "1 \<le> t" by (simp add: t)
  define Q where "Q = S / t"
  have S1: "1 \<le> S" using S by (simp add: S_def)
  have Q: "Q \<le> 1 + 6 / 2 ^ 53 \<and> 1 - 6 / 2 ^ 53 \<le> Q"
  proof (cases "1 \<le> s")
    case True
    then have ts: "t = s" by (simp add: t)
    have "S \<le> (1 + 6 / 2 ^ 53) * s" using lo True by (simp add: field_simps)
    moreover have "(1 - 6 / 2 ^ 53) * s \<le> S" using up True by (simp add: field_simps)
    ultimately show ?thesis using True by (simp add: Q_def ts pos_divide_le_eq pos_le_divide_eq)
  next
    case False
    then have ts: "t = 1" by (simp add: t)
    have "S \<le> 1 + 6 / 2 ^ 53" using lo False by (simp add: field_simps)
    then show ?thesis using S1 by (simp add: Q_def ts)
  qed
  have q: "0 \<le> w1 / t" "0 \<le> w2 / t" "0 \<le> w3 / t" "0 \<le> w4 / t" "0 \<le> w5 / t"
    using w t1 by simp_all
  have sumq: "w1 / t + w2 / t + w3 / t + w4 / t + w5 / t = Q"
    by (simp add: Q_def S_def add_divide_distrib)
  define T where
    "T = fl64 (w1 / t) + fl64 (w2 / t) + fl64 (w3 / t) + fl64 (w4 / t) + fl64 (w5 / t)"
  have Tu: "T \<le> Q + Q / 2 ^ 53 + 5 / 2 ^ 100"
    unfolding T_def
    using fl64_upper [OF q(1)] fl64_upper [OF q(2)] fl64_upper [OF q(3)] fl64_upper [OF q(4)]
      fl64_upper [OF q(5)] sumq [symmetric] by (simp add: field_simps)
  have Tl: "Q - Q / 2 ^ 53 - 5 / 2 ^ 100 \<le> T"
    unfolding T_def
    using fl64_lower [OF q(1)] fl64_lower [OF q(2)] fl64_lower [OF q(3)] fl64_lower [OF q(4)]
      fl64_lower [OF q(5)] sumq [symmetric] by (simp add: field_simps)
  have Qu: "Q \<le> 1 + 6 / 2 ^ 53" and Ql: "1 - 6 / 2 ^ 53 \<le> Q" using Q by simp_all
  have "T \<le> 1 + 1 / 2 ^ 50" using Tu Qu by (simp add: field_simps)
  moreover have "1 - 1 / 2 ^ 50 \<le> T" using Tl Ql by (simp add: field_simps)
  ultimately have "\<bar>T - 1\<bar> \<le> 1 / 2 ^ 50" by (simp only: abs_le_iff) linarith
  then show ?thesis by (simp only: T_def)
qed


section \<open>Properties of the loudness measurement\<close>

lemma foldl_plus_sum_list: "foldl (+) (a::real) xs = a + sum_list xs"
  by (induction xs arbitrary: a) auto

lemma sum_list_below:
  "xs \<noteq> [] \<Longrightarrow> \<forall>x\<in>set xs. x < (a::real) \<Longrightarrow> sum_list xs < a * real (length xs)"
  by (induction xs rule: list_nonempty_induct) (auto simp: algebra_simps)

lemma exists_above_mean:
  assumes "xs \<noteq> []"
  shows "\<exists>x\<in>set xs. sum_list xs / real (length xs) \<le> (x::real)"
proof (rule ccontr)
  assume "\<not> ?thesis"
  then have "\<forall>x\<in>set xs. x < sum_list xs / real (length xs)" by auto
  from sum_list_below [OF assms this] assms show False by simp
qed

lemma sum_list_positive:
  "xs \<noteq> [] \<Longrightarrow> \<forall>x\<in>set xs. 0 < (x::real) \<Longrightarrow> 0 < sum_list xs"
  by (induction xs rule: list_nonempty_induct) (auto intro: add_pos_pos)

lemma absoluteGate_pos: "0 < absoluteGate"
  by (simp add: absoluteGate_def Math_pow10_def)

lemma gatedBlocks_ge: "x \<in> set (gatedBlocks b sr) \<Longrightarrow> absoluteGate \<le> x"
  by (simp add: gatedBlocks_def)

lemma gatedAvg_pos:
  assumes "gatedBlocks b sr \<noteq> []"
  shows "0 < gatedAvg b sr"
proof -
  have "\<forall>x\<in>set (gatedBlocks b sr). 0 < x"
    using absoluteGate_pos gatedBlocks_ge by (auto intro: less_le_trans)
  then have "0 < sum_list (gatedBlocks b sr)"
    using assms by (rule sum_list_positive [rotated])
  then show ?thesis using assms by (simp add: gatedAvg_def Let_def foldl_plus_sum_list)
qed

text \<open>
  The relative gate never empties a non-empty list of gated blocks: the largest gated
  block is at least the average, which is positive and above a tenth of itself. So "no
  block survives the two gates" and "no block survives the absolute gate" are the same.
\<close>

lemma relative_gate_keeps_one:
  assumes "gatedBlocks b sr \<noteq> []"
  shows "finalBlocks b sr \<noteq> []"
proof -
  obtain x where x: "x \<in> set (gatedBlocks b sr)" "gatedAvg b sr \<le> x"
    using exists_above_mean [OF assms] by (auto simp: gatedAvg_def Let_def foldl_plus_sum_list)
  have "Math_pow10 (- 10 / 10) = 1 / 10" by (simp add: Math_pow10_def powr_minus_divide)
  then have "gatedAvg b sr * Math_pow10 (- 10 / 10) \<le> gatedAvg b sr"
    using gatedAvg_pos [OF assms] by simp
  with x have "x \<in> set (finalBlocks b sr)" by (simp add: finalBlocks_def Let_def)
  then show ?thesis by auto
qed

lemma short_buffer_no_blocks:
  "int (length b) \<le> blockSizeOf sr \<Longrightarrow> gatingBlocks b sr 0 = []"
  by (subst gatingBlocks.simps) simp

lemma no_blocks_NegInf:
  "gatingBlocks b sr 0 = [] \<Longrightarrow> calculateLUFS b sr = NegInf"
  by (simp add: calculateLUFS_def calculateMeanSquareWithGating_def)

lemma clip_range: "- 1 \<le> clip x \<and> clip x \<le> 1"
  by (simp add: clip_def)

text \<open>Two small buffers at a sample rate of 10 Hz (blocks of 4 samples, hop 1).\<close>

lemma gatingBlocks_zeros: "gatingBlocks [0, 0, 0, 0, 0] 10 0 = [0]"
  apply (subst gatingBlocks.simps)
  apply (subst gatingBlocks.simps)
  apply (simp add: blockSizeOf_def hopOf_def blockSum_def upt_rec)
  done

lemma gatedBlocks_zeros: "gatedBlocks [0, 0, 0, 0, 0] 10 = []"
  by (simp add: gatedBlocks_def gatingBlocks_zeros absoluteGate_def Math_pow10_def)

lemma gatingBlocks_ones: "gatingBlocks [1, 1, 1, 1, 1] 10 0 = [1]"
  apply (subst gatingBlocks.simps)
  apply (subst gatingBlocks.simps)
  apply (simp add: blockSizeOf_def hopOf_def blockSum_def upt_rec)
  done

lemma calculateLUFS_ones: "calculateLUFS [1, 1, 1, 1, 1] 10 = Fin (- 0.691)"
  by (simp add: calculateLUFS_def calculateMeanSquareWithGating_def gatedAvg_def
      finalBlocks_def gatedBlocks_def gatingBlocks_ones absoluteGate_def Math_pow10_def
      Math_log10_def powr_minus_divide)

text \<open>
  C1, as stated: whenever no block survives the two gates of a non-empty buffer,
  \<open>calculateLUFS\<close> returns 0. It fails on five silent samples at 10 Hz: the one block
  has mean square 0, the absolute gate rejects it, and the result is \<open>-Infinity\<close>.
\<close>

theorem C1_counterexample:
  "[0, 0, 0, 0, 0] \<noteq> ([] :: real list) \<and> finalBlocks [0, 0, 0, 0, 0] 10 = []
     \<and> calculateLUFS [0, 0, 0, 0, 0] 10 = NegInf \<and> NegInf \<noteq> Fin 0"
  by (simp add: finalBlocks_def gatedBlocks_zeros calculateLUFS_def
      calculateMeanSquareWithGating_def)

text \<open>
  C1, amended: for every non-empty buffer and sample rate for which the two-stage
  gating leaves no surviving block, \<open>calculateMeanSquareWithGating\<close> returns 0 and
  \<open>calculateLUFS\<close> returns \<open>-Infinity\<close> (silence).
\<close>

theorem C1_no_surviving_blocks:
  assumes "audioBuffer \<noteq> []" and "finalBlocks audioBuffer sampleRate = []"
  shows "calculateMeanSquareWithGating audioBuffer sampleRate = 0
           \<and> calculateLUFS audioBuffer sampleRate = NegInf"
proof -
  have "gatedBlocks audioBuffer sampleRate = []"
    using assms(2) relative_gate_keeps_one by blast
  then show ?thesis
    using assms(1) by (simp add: calculateLUFS_def calculateMeanSquareWithGating_def)
qed

theorem C1_no_surviving_blocks_witness:
  "[0, 0, 0, 0, 0] \<noteq> ([] :: real list) \<and> finalBlocks [0, 0, 0, 0, 0] 10 = []
     \<and> calculateMeanSquareWithGating [0, 0, 0, 0, 0] 10 = 0
     \<and> calculateLUFS [0, 0, 0, 0, 0] 10 = NegInf"
proof -
  have h: "finalBlocks [0, 0, 0, 0, 0] 10 = []"
    by (simp add: finalBlocks_def gatedBlocks_zeros)
  show ?thesis
    using h C1_no_surviving_blocks [of "[0, 0, 0, 0, 0]" 10, OF _ h] by simp
qed

text \<open>
  C2, as stated: every sample of the buffer returned by \<open>normalizeToLUFS\<close> lies in
  [-1, 1]. It fails on the one-sample buffer [5] at 16000 Hz: the buffer is shorter than
  a block, its loudness is \<open>-Infinity\<close>, and the input comes back unchanged.
\<close>

theorem C2_counterexample:
  "NormalizeResult.normalized (normalizeToLUFS [5] 16000 (- 23)) = [5] \<and> \<not> ((5::real) \<le> 1)"
proof -
  have "gatingBlocks [5] 16000 0 = []"
    by (rule short_buffer_no_blocks) (simp add: blockSizeOf_def)
  then have "calculateLUFS [5] 16000 = NegInf" by (rule no_blocks_NegInf)
  then show ?thesis by (simp add: normalizeToLUFS_def)
qed

text \<open>
  C2, amended: for every buffer whose samples are all finite (the buffer is a list of
  reals), every sample rate and every target loudness: if the measured loudness is finite
  and the gain \<open>target - measured\<close> is at most 6160 dB, then the linear gain is at most 10
  to the power 308, so that it does not overflow to \<open>Infinity\<close>, and every sample of the
  returned buffer lies within [-1, 1]; if the measured loudness is not finite, the returned
  buffer is the input buffer itself. Without the two conditions the source can return
  \<open>NaN\<close>: a \<open>NaN\<close> sample outside every block is scaled and clipped to \<open>NaN\<close>, and a gain
  that has overflowed to \<open>Infinity\<close> turns a sample 0 into \<open>NaN\<close>.
\<close>

theorem C2_normalized_range:
  "(calculateLUFS audioBuffer sampleRate = Fin cur \<and> targetLUFS - cur \<le> 6160 \<longrightarrow>
      gainLinear (normalizeToLUFS audioBuffer sampleRate targetLUFS) \<le> 10 ^ 308
      \<and> (\<forall>s\<in>set (NormalizeResult.normalized (normalizeToLUFS audioBuffer sampleRate targetLUFS)).
            - 1 \<le> s \<and> s \<le> 1))
   \<and> (\<not> isFinite (calculateLUFS audioBuffer sampleRate) \<longrightarrow>
        NormalizeResult.normalized (normalizeToLUFS audioBuffer sampleRate targetLUFS) = audioBuffer)"
proof -
  have gain: "Math_pow10 ((targetLUFS - cur) / 20) \<le> 10 ^ 308" if "targetLUFS - cur \<le> 6160"
  proof -
    have "(targetLUFS - cur) / 20 \<le> real (308::nat)" using that by simp
    then have "(10::real) powr ((targetLUFS - cur) / 20) \<le> 10 powr real (308::nat)"
      by (intro powr_mono) simp_all
    also have "\<dots> = 10 ^ 308" by (subst powr_realpow) simp_all
    finally show ?thesis by (simp only: Math_pow10_def)
  qed
  show ?thesis
    using gain
    by (cases "calculateLUFS audioBuffer sampleRate")
       (auto simp: normalizeToLUFS_def Let_def clip_range)
qed

theorem C2_normalized_range_witness:
  "calculateLUFS [1, 1, 1, 1, 1] 10 = Fin (- 0.691) \<and> - 23 - (- 0.691) \<le> (6160::real)
   \<and> gainLinear (normalizeToLUFS [1, 1, 1, 1, 1] 10 (- 23)) \<le> 10 ^ 308
   \<and> list_all (\<lambda>s. - 1 \<le> s \<and> s \<le> 1) (NormalizeResult.normalized (normalizeToLUFS [1, 1, 1, 1, 1] 10 (- 23)))
   \<and> \<not> isFinite (calculateLUFS [0, 0, 0, 0, 0] 10)
   \<and> NormalizeResult.normalized (normalizeToLUFS [0, 0, 0, 0, 0] 10 (- 23)) = [0, 0, 0, 0, 0]"
proof -
  have a: "calculateLUFS [1, 1, 1, 1, 1] 10 = Fin (- 0.691)"
    by (rule calculateLUFS_ones)
  have g: "- 23 - (- 0.691) \<le> (6160::real)" by simp
  have b: "\<not> isFinite (calculateLUFS [0, 0, 0, 0, 0] 10)"
    by (simp add: calculateLUFS_def calculateMeanSquareWithGating_def gatedBlocks_zeros)
  show ?thesis
    using a g b C2_normalized_range [of "[1, 1, 1, 1, 1]" 10 "- 0.691" "- 23"]
      C2_normalized_range [of "[0, 0, 0, 0, 0]" 10 "- 0.691" "- 23"]
    unfolding list_all_iff by blast
qed

text \<open>
  C9: a non-empty buffer of at most \<open>floor (0.4 * sampleRate)\<close> samples yields no block,
  whatever its samples are, so \<open>calculateLUFS\<close> returns \<open>-Infinity\<close> and
  \<open>normalizeToLUFS\<close> returns the buffer unchanged with linear gain 1 (and gain 0 dB).
\<close>

theorem C9_short_buffer:
  assumes "audioBuffer \<noteq> []"
    and "int (length audioBuffer) \<le> \<lfloor>0.4 * sampleRate\<rfloor>"
  shows "calculateLUFS audioBuffer sampleRate = NegInf
         \<and> normalizeToLUFS audioBuffer sampleRate targetLUFS =
             \<lparr>NormalizeResult.normalized = audioBuffer, currentLUFS = NegInf, gainDB = 0, gainLinear = 1\<rparr>"
proof -
  have "gatingBlocks audioBuffer sampleRate 0 = []"
    using assms(2) by (intro short_buffer_no_blocks) (simp add: blockSizeOf_def mult.commute)
  then have "calculateLUFS audioBuffer sampleRate = NegInf"
    by (rule no_blocks_NegInf)
  then show ?thesis by (simp add: normalizeToLUFS_def)
qed

theorem C9_short_buffer_witness:
  "[1, - 1, 1, - 1] \<noteq> ([] :: real list)
   \<and> int (length [1, - 1, 1, - 1 :: real]) \<le> \<lfloor>0.4 * (10 :: real)\<rfloor>
   \<and> calculateLUFS [1, - 1, 1, - 1] 10 = NegInf
   \<and> normalizeToLUFS [1, - 1, 1, - 1] 10 (- 23) =
        \<lparr>NormalizeResult.normalized = [1, - 1, 1, - 1], currentLUFS = NegInf, gainDB = 0, gainLinear = 1\<rparr>"
proof -
  have h: "int (length [1, - 1, 1, - 1 :: real]) \<le> \<lfloor>0.4 * (10 :: real)\<rfloor>" by simp
  show ?thesis
    using h C9_short_buffer [of "[1, - 1, 1, - 1]" 10 "- 23", OF _ h] by simp
qed


section \<open>Properties of the calibration store\<close>

lemma findIndex_update_same:
  "P q \<Longrightarrow> findIndex P xs = Some i \<Longrightarrow> find P (xs[i := q]) = Some q"
  by (induction xs arbitrary: i) (auto split: if_splits)

lemma findIndex_update_other:
  "\<not> Q q \<Longrightarrow> findIndex P xs = Some i \<Longrightarrow> (\<And>x. P x \<Longrightarrow> \<not> Q x) \<Longrightarrow> find Q (xs[i := q]) = find Q xs"
  by (induction xs arbitrary: i) (auto split: if_splits)

lemma findIndex_None_find: "findIndex P xs = None \<Longrightarrow> find P xs = None"
  by (induction xs) (auto split: if_splits)

lemma find_append: "find P (xs @ ys) = (case find P xs of Some x \<Rightarrow> Some x | None \<Rightarrow> find P ys)"
  by (induction xs) auto

lemma profileFor_save_same: "profileFor (deviceId q) (saveCalibrationProfile q st) = Some q"
  by (auto simp: profileFor_def saveCalibrationProfile_def Let_def getCalibrationProfiles_def
      findIndex_update_same find_append findIndex_None_find split: option.splits)

lemma profileFor_save_other:
  "dev \<noteq> deviceId q \<Longrightarrow> profileFor dev (saveCalibrationProfile q st) = profileFor dev st"
  by (auto simp: profileFor_def saveCalibrationProfile_def Let_def getCalibrationProfiles_def
      findIndex_update_other find_append split: option.splits)

lemma find_deviceId: "find (\<lambda>p. deviceId p = dev) xs = Some p \<Longrightarrow> deviceId p = dev"
  by (induction xs) (auto split: if_splits)

lemma getCalibrationProfile_fst:
  "fst (getCalibrationProfile dev now st) = map_option (\<lambda>p. p\<lparr>lastUsed := now\<rparr>) (profileFor dev st)"
  by (simp add: getCalibrationProfile_def profileFor_def Let_def split: option.splits)

lemma profileFor_get_same:
  "profileFor dev (snd (getCalibrationProfile dev now st)) = map_option (\<lambda>p. p\<lparr>lastUsed := now\<rparr>) (profileFor dev st)"
proof (cases "profileFor dev st")
  case None then show ?thesis by (simp add: getCalibrationProfile_def profileFor_def)
next
  case (Some p)
  then have d: "deviceId p = dev" by (auto simp: profileFor_def dest: find_deviceId)
  have "profileFor (deviceId (p\<lparr>lastUsed := now\<rparr>)) (saveCalibrationProfile (p\<lparr>lastUsed := now\<rparr>) st) = Some (p\<lparr>lastUsed := now\<rparr>)"
    by (rule profileFor_save_same)
  with Some d show ?thesis by (simp add: getCalibrationProfile_def profileFor_def[symmetric] Let_def)
qed

lemma profileFor_get_other:
  "dev' \<noteq> dev \<Longrightarrow> profileFor dev' (snd (getCalibrationProfile dev now st)) = profileFor dev' st"
proof (cases "profileFor dev st")
  case None then show ?thesis by (simp add: getCalibrationProfile_def profileFor_def)
next
  case (Some p)
  assume ne: "dev' \<noteq> dev"
  from Some have d: "deviceId p = dev" by (auto simp: profileFor_def dest: find_deviceId)
  with ne have "profileFor dev' (saveCalibrationProfile (p\<lparr>lastUsed := now\<rparr>) st) = profileFor dev' st"
    by (intro profileFor_save_other) simp
  with Some show ?thesis by (simp add: getCalibrationProfile_def profileFor_def[symmetric] Let_def)
qed

lemma sliceFrom_neg: "0 < n \<Longrightarrow> n \<le> length xs \<Longrightarrow> sliceFrom (- int n) xs = drop (length xs - n) xs"
  by (auto simp: sliceFrom_def slice_def Let_def nat_diff_distrib' max_def)

lemma track_same:
  assumes "storedHistory dev st = Some h"
  shows "storedHistory dev (trackRecording dev stats now st) = Some (lastN 10 (h @ [historyEntry stats now]))"
proof -
  obtain p where p: "profileFor dev st = Some p" "historyOf p = h"
    using assms by (auto simp: storedHistory_def)
  then have d: "deviceId p = dev" by (auto simp: profileFor_def dest: find_deviceId)
  obtain r st' where g: "getCalibrationProfile dev now st = (r, st')" by fastforce
  with getCalibrationProfile_fst [of dev now st] p have r: "r = Some (p\<lparr>lastUsed := now\<rparr>)" by simp
  let ?q = "p\<lparr>lastUsed := now\<rparr>"
  let ?pushed = "historyOf ?q @ [historyEntry stats now]"
  let ?hist = "if length ?pushed > MAX_RECORDING_HISTORY then sliceFrom (- int MAX_RECORDING_HISTORY) ?pushed else ?pushed"
  have t: "trackRecording dev stats now st = saveCalibrationProfile (?q\<lparr>recordingHistory := Some ?hist\<rparr>) st'"
    using g r by (simp add: trackRecording_def Let_def)
  have "profileFor (deviceId (?q\<lparr>recordingHistory := Some ?hist\<rparr>)) (saveCalibrationProfile (?q\<lparr>recordingHistory := Some ?hist\<rparr>) st') = Some (?q\<lparr>recordingHistory := Some ?hist\<rparr>)"
    by (rule profileFor_save_same)
  then have "storedHistory dev (trackRecording dev stats now st) = Some ?hist"
    using d t by (simp add: storedHistory_def historyOf_def)
  moreover have "?hist = lastN 10 (h @ [historyEntry stats now])"
  proof -
    have hq: "historyOf ?q = h" using p(2) by (simp add: historyOf_def)
    show ?thesis
      using sliceFrom_neg [of 10 "h @ [historyEntry stats now]"]
      by (simp add: hq lastN_def MAX_RECORDING_HISTORY_def)
  qed
  ultimately show ?thesis by simp
qed

lemma track_other:
  assumes "dev' \<noteq> dev"
  shows "storedHistory dev (trackRecording dev' stats now st) = storedHistory dev st"
proof -
  obtain r st' where g: "getCalibrationProfile dev' now st = (r, st')" by fastforce
  have s: "profileFor dev st' = profileFor dev st"
    using profileFor_get_other [of dev dev' now st] assms g by simp
  show ?thesis
  proof (cases r)
    case None with g s show ?thesis by (simp add: trackRecording_def storedHistory_def)
  next
    case (Some q)
    with g getCalibrationProfile_fst [of dev' now st]
    have "Some q = map_option (\<lambda>p. p\<lparr>lastUsed := now\<rparr>) (profileFor dev' st)" by simp
    then obtain p where "profileFor dev' st = Some p" "q = p\<lparr>lastUsed := now\<rparr>"
      by (cases "profileFor dev' st") auto
    then have "deviceId q = dev'" by (auto simp: profileFor_def dest: find_deviceId)
    with assms Some g s show ?thesis
      by (simp add: trackRecording_def storedHistory_def Let_def profileFor_save_other)
  qed
qed

lemma lastN_short: "length xs \<le> n \<Longrightarrow> lastN n xs = xs"
  by (simp add: lastN_def)

lemma length_lastN: "length (lastN n xs) \<le> n"
  by (simp add: lastN_def)

lemma lastN_lastN_append: "lastN n (lastN n xs @ ys) = lastN n (xs @ ys)"
  by (cases "length xs \<le> n") (auto simp: lastN_def add.commute)

lemma trackAll_history:
  "storedHistory dev st = Some h \<Longrightarrow> length h \<le> 10 \<or> entriesFor dev recs \<noteq> [] \<Longrightarrow>
   storedHistory dev (trackAll recs st) = Some (lastN 10 (h @ entriesFor dev recs))"
proof (induction recs arbitrary: st h)
  case Nil
  then show ?case by (simp add: entriesFor_def lastN_short)
next
  case (Cons r recs)
  obtain d stats now where r: "r = (d, stats, now)" by (cases r) auto
  show ?case
  proof (cases "d = dev")
    case True
    have "storedHistory dev (trackRecording dev stats now st) = Some (lastN 10 (h @ [historyEntry stats now]))"
      using Cons.prems(1) by (rule track_same)
    then have "storedHistory dev (trackAll recs (trackRecording dev stats now st))
       = Some (lastN 10 (lastN 10 (h @ [historyEntry stats now]) @ entriesFor dev recs))"
      by (rule Cons.IH) (simp add: length_lastN)
    then show ?thesis using True r by (simp add: lastN_lastN_append entriesFor_def)
  next
    case False
    then have "storedHistory dev (trackRecording d stats now st) = Some h"
      using Cons.prems(1) by (simp add: track_other)
    moreover have "entriesFor dev (r # recs) = entriesFor dev recs"
      using False r by (simp add: entriesFor_def)
    ultimately show ?thesis using Cons.IH [of "trackRecording d stats now st" h] Cons.prems(2) r
      by simp
  qed
qed

lemma getCalibrationProfile_found:
  "profileFor dev st = Some p \<Longrightarrow>
   getCalibrationProfile dev now st = (Some (p\<lparr>lastUsed := now\<rparr>), saveCalibrationProfile (p\<lparr>lastUsed := now\<rparr>) st)"
  by (simp add: getCalibrationProfile_def profileFor_def Let_def)

lemma check_short:
  assumes "profileFor dev st = Some p" "length (historyOf p) < 3"
  shows "\<not> shouldRecalibrate (suggestion dev now st)"
  using assms
  by (cases "recordingHistory p")
     (simp_all add: suggestion_def checkRecalibrationNeeded_def getCalibrationProfile_found historyOf_def Let_def)

lemma check_long:
  assumes "profileFor dev st = Some p" "3 \<le> length (historyOf p)"
  shows "suggestion dev now st =
     (if lufsDeviation p > 5
      then \<lparr>shouldRecalibrate = True, reason = Some (HighVariance (lufsDeviation p)),
            variance = Some (lufsDeviation p), threshold = Some 5\<rparr>
      else if noiseDeviation p > 10
      then \<lparr>shouldRecalibrate = True, reason = Some (NoiseChanged (noiseDeviation p)),
            variance = Some (noiseDeviation p), threshold = Some 10\<rparr>
      else if daysSince now p > 30
      then \<lparr>shouldRecalibrate = True, reason = Some (CalibrationAge \<lfloor>daysSince now p\<rfloor>),
            variance = None, threshold = None\<rparr>
      else \<lparr>shouldRecalibrate = False, reason = None, variance = None, threshold = None\<rparr>)"
proof -
  obtain h where h: "recordingHistory p = Some h" "3 \<le> length h"
    using assms(2) by (cases "recordingHistory p") (auto simp: historyOf_def)
  have l: "calcStd (map RecordingStats.originalLUFS h) = lufsDeviation p"
    using h by (simp add: lufsDeviation_def historyOf_def)
  have n: "calcStd (map RecordingStats.noiseFloor h) = noiseDeviation p"
    using h by (simp add: noiseDeviation_def historyOf_def)
  show ?thesis
    using h l n
    by (simp add: suggestion_def checkRecalibrationNeeded_def getCalibrationProfile_found [OF assms(1)]
        Let_def VARIANCE_THRESHOLD_def daysSince_def)
qed

text \<open>The rounded operations of \<open>calcStd\<close> on a history of four stored numbers.\<close>

lemma calcStd_four:
  "calcStd [Some a, Some b, Some c, Some d] =
     (let mean = fl64 (fl64 (fl64 (fl64 (fl64 (0 + a) + b) + c) + d) / 4)
      in Math_sqrt (fl64 (fl64 (fl64 (fl64 (fl64 (0 + Math_pow2 (fl64 (a - mean)))
           + Math_pow2 (fl64 (b - mean))) + Math_pow2 (fl64 (c - mean)))
           + Math_pow2 (fl64 (d - mean))) / 4)))"
  by (simp add: calcStd_def numberOf_def Let_def)

lemma sqrt_25: "sqrt 25 = 5"
  using real_sqrt_abs [of 5] by simp

lemma calcStd_level: "calcStd [Some (- 60), Some (- 60), Some (- 60), Some (- 60)] = 0"
  by (simp add: calcStd_four Math_pow2_def Math_sqrt_def)

lemma calcStd_boundary: "calcStd [Some 5, Some (- 5), Some 5, Some (- 5)] = 5"
  by (simp add: calcStd_four Math_pow2_def Math_sqrt_def sqrt_25)

lemma calcStd_drift:
  "calcStd [Some quietLevel, Some loudLevel, Some quietLevel, Some loudLevel] = 5"
proof -
  have s1: "fl64 (0 + quietLevel) = quietLevel" by (simp add: quietLevel_def)
  have s2: "fl64 (quietLevel + loudLevel) = - 18"
    unfolding quietLevel_def loudLevel_def
    by (rule fl64_near [where m = "- 5066549580791808" and e = "- 48"])
       (simp_all add: powr_minus_divide)
  have s3: "fl64 (- 18 + quietLevel) = - 32" by (simp add: quietLevel_def)
  have s4: "fl64 (- 32 + loudLevel) = - 36"
    unfolding loudLevel_def
    by (rule fl64_near [where m = "- 5066549580791808" and e = "- 47"])
       (simp_all add: powr_minus_divide)
  have m: "fl64 (- 36 / 4) = - 9" by simp
  have d1: "fl64 (quietLevel - - 9) = - 5" by (simp add: quietLevel_def)
  have d2: "fl64 (loudLevel - - 9) = 5"
    unfolding loudLevel_def
    by (rule fl64_tie [where m = "5629499534213120" and e = "- 50"])
       (simp_all add: powr_minus_divide)
  have q1: "Math_pow2 (- 5) = 25" and q2: "Math_pow2 5 = 25" by (simp_all add: Math_pow2_def)
  have t: "fl64 (0 + 25) = 25" "fl64 (25 + 25) = 50" "fl64 (50 + 25) = 75" "fl64 (75 + 25) = 100"
    by simp_all
  have v: "fl64 (100 / 4) = 25" by simp
  have r: "Math_sqrt 25 = 5" by (simp add: Math_sqrt_def sqrt_25)
  show ?thesis
    by (simp only: calcStd_four Let_def s1 s2 s3 s4 m d1 d2 q1 q2 t v r)
qed

lemma calcStd_501:
  "calcStd [Some level501, Some (- level501), Some level501, Some (- level501)] = level501"
proof -
  define q :: real where "q = 220782814466723 / 8796093022208"
  define q2 :: real where "q2 = 220782814466723 / 4398046511104"
  define q3 :: real where "q3 = 662348443400169 / 8796093022208"
  define q4 :: real where "q4 = 220782814466723 / 2199023255552"
  have x: "fl64 level501 = level501"
    unfolding level501_def using fl64_frac [of 2820379266640773 49] by simp
  have s1: "fl64 (0 + level501) = level501" using x by simp
  have s2: "fl64 (level501 + - level501) = 0" by simp
  have m: "fl64 (0 / 4) = 0" by simp
  have d1: "fl64 (level501 - 0) = level501" using x by simp
  have d2: "fl64 (- level501 - 0) = - level501"
    unfolding level501_def using fl64_frac [of "- 2820379266640773" 49] by simp
  have p1: "Math_pow2 level501 = q"
    unfolding Math_pow2_def level501_def q_def
    by (rule fl64_near [where m = "7065050062935136" and e = "- 48"])
       (simp_all add: powr_minus_divide)
  have p2: "Math_pow2 (- level501) = q"
    using p1 by (simp add: Math_pow2_def)
  have t1: "fl64 (0 + q) = q"
    unfolding q_def using fl64_frac [of 220782814466723 43] by simp
  have t2: "fl64 (q + q) = q2"
    unfolding q_def q2_def using fl64_frac [of 220782814466723 42] by simp
  have t3: "fl64 (q2 + q) = q3"
    unfolding q_def q2_def q3_def using fl64_frac [of 662348443400169 43] by simp
  have t4: "fl64 (q3 + q) = q4"
    unfolding q_def q3_def q4_def using fl64_frac [of 220782814466723 41] by simp
  have v: "fl64 (q4 / 4) = q"
    unfolding q_def q4_def using fl64_frac [of 220782814466723 43] by simp
  have lo: "level501 - 1 / 2 ^ 51 < sqrt q"
    unfolding level501_def q_def by (rule real_less_rsqrt) (simp add: power2_eq_square)
  have hi: "sqrt q < level501 + 1 / 2 ^ 51"
    unfolding level501_def q_def by (rule real_less_lsqrt) (simp_all add: power2_eq_square)
  have l5: "5 < level501" and l6: "level501 < 6" by (simp_all add: level501_def)
  have ab: "\<bar>sqrt q - level501\<bar> < 1 / 2 ^ 51"
    using lo hi by (simp only: abs_less_iff) linarith
  have r: "Math_sqrt q = level501"
    unfolding Math_sqrt_def
  proof (rule fl64_near [where m = "5640758533281546" and e = "- 50"])
    show "level501 = real_of_int 5640758533281546 * 2 powr real_of_int (- 50)"
      by (simp add: level501_def powr_minus_divide)
    show "2 powr real_of_int (- 50 + 52) \<le> \<bar>sqrt q\<bar>" using lo l5 by simp
    show "\<bar>sqrt q\<bar> < 2 powr real_of_int (- 50 + 53)" using lo hi l5 l6 by simp
    show "- 1074 \<le> (- 50 :: int)" by simp
    show "\<bar>sqrt q - level501\<bar> < 2 powr real_of_int (- 50) / 2"
      using ab by (simp add: powr_minus_divide)
  qed
  show ?thesis
    by (simp only: calcStd_four Let_def s1 s2 m d1 d2 p1 p2 t1 t2 t3 t4 v r)
qed

lemma populationStd_two_levels: "populationStd [a, b, a, b] = \<bar>b - a\<bar> / 2"
proof -
  have "((a - (a + b + a + b) / 4)\<^sup>2 + (b - (a + b + a + b) / 4)\<^sup>2
          + (a - (a + b + a + b) / 4)\<^sup>2 + (b - (a + b + a + b) / 4)\<^sup>2) / 4 = ((b - a) / 2)\<^sup>2"
    by (simp add: power2_eq_square field_simps)
  then have "populationStd [a, b, a, b] = sqrt (((b - a) / 2)\<^sup>2)"
    by (simp add: populationStd_def add.assoc)
  then show ?thesis by (simp only: real_sqrt_abs) simp
qed

lemma drift_found: "profileFor ''mic'' (Some [driftProfile]) = Some driftProfile"
  by (simp add: profileFor_def getCalibrationProfiles_def driftProfile_def demoProfile_def)

lemma drift_history: "length (historyOf driftProfile) = 4"
  by (simp add: historyOf_def driftProfile_def demoProfile_def)

lemma drift_levels: "lufsValues driftProfile = [quietLevel, loudLevel, quietLevel, loudLevel]"
  by (simp add: lufsValues_def historyOf_def driftProfile_def demoProfile_def demoStats_def
      numberOf_def)

lemma drift_deviation: "lufsDeviation driftProfile = 5"
  by (simp add: lufsDeviation_def historyOf_def driftProfile_def demoProfile_def demoStats_def
      calcStd_drift)

lemma drift_noise: "noiseDeviation driftProfile = 0"
  by (simp add: noiseDeviation_def historyOf_def driftProfile_def demoProfile_def demoStats_def
      calcStd_level)

lemma levels_double: "isDouble quietLevel \<and> isDouble loudLevel"
  using fl64_frac [of "- 9007199254740991" 51]
  by (simp add: isDouble_def quietLevel_def loudLevel_def)




text \<open>
  C7: over every sequence of \<open>trackRecording\<close> calls, the history of a stored profile
  that starts with at most 10 entries (or gets at least one new entry) holds the 10 most
  recent entries, oldest evicted first and order kept, so it never exceeds 10 entries.
\<close>

theorem C7_history_ring:
  assumes "storedHistory dev st = Some h"
    and "length h \<le> 10 \<or> entriesFor dev recs \<noteq> []"
  shows "storedHistory dev (trackAll recs st) = Some (lastN 10 (h @ entriesFor dev recs))
         \<and> length (lastN 10 (h @ entriesFor dev recs)) \<le> 10"
  using trackAll_history [OF assms] by (simp add: length_lastN)

theorem C7_history_ring_witness:
  "storedHistory ''mic'' (Some [demoProfile ''mic'' []]) = Some []
   \<and> storedHistory ''mic''
       (trackAll [(''mic'', demoTracked, 1), (''mic'', demoTracked, 2), (''mic'', demoTracked, 3),
                  (''mic'', demoTracked, 4), (''cam'', demoTracked, 5), (''mic'', demoTracked, 6),
                  (''mic'', demoTracked, 7), (''mic'', demoTracked, 8), (''mic'', demoTracked, 9),
                  (''mic'', demoTracked, 10), (''mic'', demoTracked, 11), (''mic'', demoTracked, 12)]
          (Some [demoProfile ''mic'' []]))
       = Some (map (historyEntry demoTracked) [2, 3, 4, 6, 7, 8, 9, 10, 11, 12])"
proof -
  have h: "storedHistory ''mic'' (Some [demoProfile ''mic'' []]) = Some []"
    by (simp add: storedHistory_def profileFor_def getCalibrationProfiles_def historyOf_def
        demoProfile_def)
  show ?thesis
    using h C7_history_ring [OF h, of
        "[(''mic'', demoTracked, 1), (''mic'', demoTracked, 2), (''mic'', demoTracked, 3),
          (''mic'', demoTracked, 4), (''cam'', demoTracked, 5), (''mic'', demoTracked, 6),
          (''mic'', demoTracked, 7), (''mic'', demoTracked, 8), (''mic'', demoTracked, 9),
          (''mic'', demoTracked, 10), (''mic'', demoTracked, 11), (''mic'', demoTracked, 12)]"]
    by (simp add: entriesFor_def lastN_def)
qed

text \<open>
  C10: \<open>deleteCalibrationProfile\<close> removes exactly the stored profiles whose \<open>deviceId\<close>
  is the given one; every other profile stays, unchanged and in place.
\<close>

theorem C10_delete_frame:
  "getCalibrationProfiles (deleteCalibrationProfile dev st)
     = filter (\<lambda>p. deviceId p \<noteq> dev) (getCalibrationProfiles st)
   \<and> (\<forall>p. p \<in> set (getCalibrationProfiles (deleteCalibrationProfile dev st))
          \<longleftrightarrow> p \<in> set (getCalibrationProfiles st) \<and> deviceId p \<noteq> dev)"
  by (simp add: deleteCalibrationProfile_def getCalibrationProfiles_def)

theorem C10_delete_frame_witness:
  "getCalibrationProfiles (deleteCalibrationProfile ''mic''
      (Some [demoProfile ''cam'' [], demoProfile ''mic'' [], demoProfile ''usb'' [],
             demoProfile ''mic'' [demoStats 1 2]]))
     = [demoProfile ''cam'' [], demoProfile ''usb'' []]"
  using C10_delete_frame [of "''mic''" "Some [demoProfile ''cam'' [], demoProfile ''mic'' [],
      demoProfile ''usb'' [], demoProfile ''mic'' [demoStats 1 2]]"]
  by (simp add: getCalibrationProfiles_def demoProfile_def)


section \<open>Properties of the metric configuration\<close>

lemma rawWeight_nonneg:
  assumes "list_all (\<lambda>m. 0 < MetricConfig.weight m) config"
  shows "0 \<le> rawWeight config i"
proof (cases "getMetricConfig config i")
  case None
  then show ?thesis by (simp add: rawWeight_def)
next
  case (Some m)
  then have "m \<in> set config"
    by (auto simp: getMetricConfig_def find_Some_iff)
  then have "0 < MetricConfig.weight m" using assms by (simp add: list_all_iff)
  then show ?thesis using Some by (simp add: rawWeight_def)
qed

lemma normalizedWeights_raw:
  "normalizedWeights config =
     (let total = max 1 (fl64 (fl64 (fl64 (fl64 (rawWeight config ''volume''
                      + rawWeight config ''speechRate'') + rawWeight config ''acceleration'')
                      + rawWeight config ''responseTime'') + rawWeight config ''pauseManagement''))
      in \<lparr>Weights.volume = fl64 (rawWeight config ''volume'' / total),
          Weights.speechRate = fl64 (rawWeight config ''speechRate'' / total),
          Weights.acceleration = fl64 (rawWeight config ''acceleration'' / total),
          Weights.responseTime = fl64 (rawWeight config ''responseTime'' / total),
          Weights.pauseManagement = fl64 (rawWeight config ''pauseManagement'' / total)\<rparr>)"
  by (simp add: normalizedWeights_def rawWeight_def Let_def)

lemma fl64_half: "fl64 (1 / 2) = 1 / 2"
  using fl64_frac [of 1 1] by simp

lemma halfVolume_resolved:
  "getConfigFromLocalStorage (Some [halfVolumeEntry]) = Some [halfVolume]"
  by (simp add: getConfigFromLocalStorage_def localEntryValid_def localEntryConfig_def
      halfVolumeEntry_def halfVolume_def truthy_def orElse_def numberOf_def DEFAULT_CONFIG_def
      Let_def)

text \<open>The compiled defaults: 0.4, 0.4, 0.05, 0.05 and 0.1 as doubles, and their two sums.\<close>

lemma default_sums:
  "weightSum (normalizedWeights DEFAULT_CONFIG) = 1 + 1 / 2 ^ 54
   \<and> addedWeights (normalizedWeights DEFAULT_CONFIG) = 1 + 1 / 2 ^ 52"
proof -
  define a :: real where "a = 3602879701896397 / 9007199254740992"
  define b :: real where "b = 3602879701896397 / 72057594037927936"
  define c :: real where "c = 3602879701896397 / 36028797018963968"
  have qa: "fl64 (2 / 5) = a"
    unfolding a_def
    by (rule fl64_near [where m = "7205759403792794" and e = "- 54"])
       (simp_all add: powr_minus_divide)
  have qb: "fl64 (1 / 20) = b"
    unfolding b_def
    by (rule fl64_near [where m = "7205759403792794" and e = "- 57"])
       (simp_all add: powr_minus_divide)
  have qc: "fl64 (1 / 10) = c"
    unfolding c_def
    by (rule fl64_near [where m = "7205759403792794" and e = "- 56"])
       (simp_all add: powr_minus_divide)
  have W: "normalizedWeights DEFAULT_CONFIG =
       \<lparr>Weights.volume = a, Weights.speechRate = a, Weights.acceleration = b,
        Weights.responseTime = b, Weights.pauseManagement = c\<rparr>"
    by (simp add: normalizedWeights_raw rawWeight_def getMetricConfig_def DEFAULT_CONFIG_def
        Let_def qa qb qc)
  have s1: "fl64 (a + a) = 2 * a"
    unfolding a_def using fl64_frac [of 3602879701896397 52] by simp
  have s2: "fl64 (2 * a + b) = 1914029841632461 / 2251799813685248"
    unfolding a_def b_def
    by (rule fl64_near [where m = "7656119366529844" and e = "- 53"])
       (simp_all add: powr_minus_divide)
  have s3: "fl64 (1914029841632461 / 2251799813685248 + b) = 4053239664633447 / 4503599627370496"
    unfolding b_def
    by (rule fl64_near [where m = "8106479329266894" and e = "- 53"])
       (simp_all add: powr_minus_divide)
  have s4: "fl64 (4053239664633447 / 4503599627370496 + c) = 1 + 1 / 2 ^ 52"
    unfolding c_def
    by (rule fl64_near [where m = "4503599627370497" and e = "- 52"])
       (simp_all add: powr_minus_divide)
  have A: "addedWeights (normalizedWeights DEFAULT_CONFIG) = 1 + 1 / 2 ^ 52"
    by (simp only: W addedWeights_def Weights.select_convs s1 s2 s3 s4)
  have T: "weightSum (normalizedWeights DEFAULT_CONFIG) = 1 + 1 / 2 ^ 54"
    by (simp add: W weightSum_def a_def b_def c_def)
  from T A show ?thesis by simp
qed

text \<open>
  C4, as stated: whenever every metric of the resolved configuration has a positive
  weight, the five normalized weights sum to 1, up to the rounding. It fails on the
  configuration that a local override with the one entry (volume, enabled, weight 0.5)
  resolves to: the denominator is \<open>max 1 0.5 = 1\<close> and the sum is 0.5, every operation
  being exact.
\<close>

theorem C4_counterexample:
  "getConfigFromLocalStorage (Some [halfVolumeEntry]) = Some [halfVolume]
   \<and> list_all (\<lambda>m. 0 < MetricConfig.weight m) [halfVolume]
   \<and> weightSum (normalizedWeights [halfVolume]) = 1 / 2"
  by (simp add: halfVolume_resolved weightSum_def normalizedWeights_raw rawWeight_def
      getMetricConfig_def halfVolume_def fl64_half)

text \<open>
  C4, amended: for every resolved metric configuration in which every present metric has
  a positive weight and whose five resolved weights (0 for a metric that is not present)
  sum to at least 1 (and to at most 2 to the power 1000, so that no sum overflows), the
  five normalized weights, as computed in double arithmetic, sum to 1 up to the rounding:
  their exact sum is within \<open>2^-50\<close> of 1, and their sum as JavaScript adds them, from
  left to right, within \<open>2^-49\<close>. For the compiled defaults the exact sum is 1 + 2^-54
  and the added one 1 + 2^-52, that is, 1.0000000000000002.
\<close>

theorem C4_weights_sum_to_one:
  assumes "list_all (\<lambda>m. 0 < MetricConfig.weight m) config"
    and "1 \<le> rawTotal config" and "rawTotal config \<le> 2 ^ 1000"
  shows "\<bar>weightSum (normalizedWeights config) - 1\<bar> \<le> 1 / 2 ^ 50
         \<and> \<bar>addedWeights (normalizedWeights config) - 1\<bar> \<le> 1 / 2 ^ 49"
proof -
  note n = rawWeight_nonneg [OF assms(1)]
  define t where
    "t = max 1 (fl64 (fl64 (fl64 (fl64 (rawWeight config ''volume''
                      + rawWeight config ''speechRate'') + rawWeight config ''acceleration'')
                      + rawWeight config ''responseTime'') + rawWeight config ''pauseManagement''))"
  have t1: "1 \<le> t" by (simp add: t_def)
  define v where "v i = fl64 (rawWeight config i / t)" for i
  have W: "normalizedWeights config =
       \<lparr>Weights.volume = v ''volume'', Weights.speechRate = v ''speechRate'',
        Weights.acceleration = v ''acceleration'', Weights.responseTime = v ''responseTime'',
        Weights.pauseManagement = v ''pauseManagement''\<rparr>"
    by (simp add: normalizedWeights_raw Let_def t_def v_def)
  have S: "1 \<le> rawWeight config ''volume'' + rawWeight config ''speechRate''
            + rawWeight config ''acceleration'' + rawWeight config ''responseTime''
            + rawWeight config ''pauseManagement''"
    using assms(2) by (simp add: rawTotal_def)
  define T where "T = weightSum (normalizedWeights config)"
  define A where "A = addedWeights (normalizedWeights config)"
  have Tv: "T = v ''volume'' + v ''speechRate'' + v ''acceleration'' + v ''responseTime''
                 + v ''pauseManagement''"
    by (simp add: T_def W weightSum_def)
  have Av: "A = fl64 (fl64 (fl64 (fl64 (v ''volume'' + v ''speechRate'') + v ''acceleration'')
                 + v ''responseTime'') + v ''pauseManagement'')"
    by (simp add: A_def W addedWeights_def)
  have T1: "\<bar>T - 1\<bar> \<le> 1 / 2 ^ 50"
    unfolding Tv v_def by (rule normalized_sum [OF n n n n n S t_def])
  then have Tu: "T \<le> 1 + 1 / 2 ^ 50" and Tl: "1 - 1 / 2 ^ 50 \<le> T"
    by (simp_all only: abs_le_iff) linarith+
  have q: "0 \<le> v i" for i
    unfolding v_def using n [of i] t1 by (intro fl64_nonneg) simp
  have Au: "A \<le> T + 5 * T / 2 ^ 53 + 1 / 2 ^ 97" and Al: "T - 5 * T / 2 ^ 53 - 1 / 2 ^ 97 \<le> A"
    using sum_chain [OF q q q q q Tv Av] by simp_all
  have "A \<le> 1 + 1 / 2 ^ 49" using Au Tu by (simp add: field_simps)
  moreover have "1 - 1 / 2 ^ 49 \<le> A" using Al Tl by (simp add: field_simps)
  ultimately have "\<bar>A - 1\<bar> \<le> 1 / 2 ^ 49" by (simp only: abs_le_iff; linarith?)
  with T1 show ?thesis by (simp only: T_def A_def)
qed

theorem C4_weights_sum_to_one_witness:
  "list_all (\<lambda>m. 0 < MetricConfig.weight m) DEFAULT_CONFIG
   \<and> 1 \<le> rawTotal DEFAULT_CONFIG \<and> rawTotal DEFAULT_CONFIG \<le> 2 ^ 1000
   \<and> weightSum (normalizedWeights DEFAULT_CONFIG) = 1 + 1 / 2 ^ 54
   \<and> addedWeights (normalizedWeights DEFAULT_CONFIG) = 1 + 1 / 2 ^ 52
   \<and> \<bar>weightSum (normalizedWeights DEFAULT_CONFIG) - 1\<bar> \<le> 1 / 2 ^ 50
   \<and> \<bar>addedWeights (normalizedWeights DEFAULT_CONFIG) - 1\<bar> \<le> 1 / 2 ^ 49"
proof -
  have p: "list_all (\<lambda>m. 0 < MetricConfig.weight m) DEFAULT_CONFIG"
    by (simp add: DEFAULT_CONFIG_def)
  have t: "rawTotal DEFAULT_CONFIG = 100"
    by (simp add: rawTotal_def rawWeight_def getMetricConfig_def DEFAULT_CONFIG_def)
  have h: "1 \<le> rawTotal DEFAULT_CONFIG" and b: "rawTotal DEFAULT_CONFIG \<le> 2 ^ 1000"
    by (simp_all add: t)
  from p h b default_sums C4_weights_sum_to_one [OF p h b] show ?thesis by blast
qed

lemma applyRow_map_of:
  "map_of (applyRow row base) j =
     (case DB_METRIC_MAP (metric_name row) of
        None \<Rightarrow> map_of base j
      | Some i \<Rightarrow> (case map_of base i of None \<Rightarrow> map_of base j
           | Some prev \<Rightarrow> if j = i then Some (rowConfig row i prev) else map_of base j))"
  by (auto simp: applyRow_def rowConfig_def AList.update_conv' orElse_def numberOf_def split: option.splits)

lemma keyed_update: "keyed base \<Longrightarrow> id' v = k \<Longrightarrow> keyed (AList.update k v base)"
  by (induction base) (auto simp: keyed_def)

lemma map_of_keyed: "keyed base \<Longrightarrow> map_of base i = Some m \<Longrightarrow> id' m = i"
  by (induction base) (auto simp: keyed_def split: if_splits)

lemma keyed_applyRow: "keyed base \<Longrightarrow> keyed (applyRow row base)"
  by (auto simp: applyRow_def split: option.splits intro!: keyed_update dest: map_of_keyed)

lemma keyed_fold: "keyed base \<Longrightarrow> keyed (fold applyRow rows base)"
  by (induction rows arbitrary: base) (auto simp: keyed_applyRow)

lemma getMetricConfig_keyed: "keyed base \<Longrightarrow> getMetricConfig (map snd base) i = map_of base i"
  by (induction base) (auto simp: keyed_def getMetricConfig_def)

lemma fold_untouched:
  "\<forall>r\<in>set rows. DB_METRIC_MAP (metric_name r) \<noteq> Some i \<Longrightarrow> map_of (fold applyRow rows base) i = map_of base i"
  by (induction rows arbitrary: base) (auto simp: applyRow_map_of split: option.splits)

lemma DB_METRIC_MAP_inj: "DB_METRIC_MAP a = Some i \<Longrightarrow> DB_METRIC_MAP b = Some i \<Longrightarrow> a = b"
  by (auto simp: DB_METRIC_MAP_def split: if_splits)

lemma DB_METRIC_MAP_default:
  "DB_METRIC_MAP a = Some i \<Longrightarrow> \<exists>d. getMetricConfig DEFAULT_CONFIG i = Some d"
  by (auto simp: DB_METRIC_MAP_def getMetricConfig_def DEFAULT_CONFIG_def split: if_splits)

lemma keyed_default: "keyed (map (\<lambda>m. (id' m, m)) DEFAULT_CONFIG)"
  by (simp add: keyed_def DEFAULT_CONFIG_def)

lemma fetchConfigFromDB_row:
  assumes "distinct (map metric_name rows)" "row \<in> set rows" "DB_METRIC_MAP (metric_name row) = Some i"
  shows "\<exists>d. getMetricConfig DEFAULT_CONFIG i = Some d \<and>
     getMetricConfig (fetchConfigFromDB (Response False (Some rows))) i = Some (rowConfig row i d)"
proof -
  let ?base = "map (\<lambda>m. (id' m, m)) DEFAULT_CONFIG"
  obtain d where d: "getMetricConfig DEFAULT_CONFIG i = Some d"
    using DB_METRIC_MAP_default [OF assms(3)] by blast
  have b0: "map_of ?base i = Some d"
    using d getMetricConfig_keyed [OF keyed_default, of i] by (simp add: comp_def)
  obtain pre post where sp: "rows = pre @ row # post"
    using assms(2) by (auto dest: split_list)
  have other: "\<forall>r\<in>set pre \<union> set post. DB_METRIC_MAP (metric_name r) \<noteq> Some i"
  proof
    fix r assume r: "r \<in> set pre \<union> set post"
    have "metric_name row \<notin> metric_name ` (set pre \<union> set post)"
      using assms(1) sp by auto
    with r have "metric_name r \<noteq> metric_name row" by (metis imageI)
    then show "DB_METRIC_MAP (metric_name r) \<noteq> Some i"
      using DB_METRIC_MAP_inj [OF _ assms(3)] by blast
  qed
  have 1: "map_of (fold applyRow pre ?base) i = Some d"
    using other b0 by (simp add: fold_untouched)
  have 2: "map_of (applyRow row (fold applyRow pre ?base)) i = Some (rowConfig row i d)"
    using 1 assms(3) by (simp add: applyRow_map_of)
  have 3: "map_of (fold applyRow rows ?base) i = Some (rowConfig row i d)"
    using other 2 by (simp add: sp fold_untouched)
  have "rows \<noteq> []" using assms(2) by auto
  then have "getMetricConfig (fetchConfigFromDB (Response False (Some rows))) i = map_of (fold applyRow rows ?base) i"
    by (simp add: fetchConfigFromDB_def getMetricConfig_keyed keyed_fold keyed_default)
  with 3 d show ?thesis by simp
qed


lemma DB_METRIC_MAP_volume: "DB_METRIC_MAP ''volume'' = Some ''volume''"
  by (simp add: DB_METRIC_MAP_def)

lemma default_volume:
  "getMetricConfig DEFAULT_CONFIG ''volume'' =
     Some \<lparr>id' = ''volume'', weight = 40,
           thresholds = \<lparr>min' = - 35, ideal = - 15, max' = 0\<rparr>, method' = None\<rparr>"
  by (simp add: getMetricConfig_def DEFAULT_CONFIG_def)

text \<open>The two sample rows: their weights are doubles, and so are the products by 100.\<close>

lemma demoRow_double: "isDouble (ScoringRow.weight demoRow)"
  using fl64_frac [of 3602879701896397 54] by (simp add: isDouble_def demoRow_def)

lemma demoRow_product: "fl64 (ScoringRow.weight demoRow * 100) = 20"
proof -
  have "fl64 (3602879701896397 / 18014398509481984 * 100) = 20"
    by (rule fl64_near [where m = "5629499534213120" and e = "- 48"])
       (simp_all add: powr_minus_divide)
  then show ?thesis by (simp add: demoRow_def)
qed

lemma lowRow_double: "isDouble (ScoringRow.weight lowRow)"
  using fl64_frac [of 1080863910568919 56] by (simp add: isDouble_def lowRow_def)

lemma lowRow_product: "fl64 (ScoringRow.weight lowRow * 100) = 3 / 2"
proof -
  have "fl64 (1080863910568919 / 72057594037927936 * 100) = 3 / 2"
    by (rule fl64_near [where m = "6755399441055744" and e = "- 52"])
       (simp_all add: powr_minus_divide)
  then show ?thesis by (simp add: lowRow_def)
qed

lemma demoRow_resolved:
  "getMetricConfig (fetchConfigFromDB (Response False (Some [demoRow]))) ''volume''
     = Some \<lparr>id' = ''volume'', weight = 20,
             thresholds = \<lparr>min' = - 45, ideal = - 20, max' = 0\<rparr>, method' = None\<rparr>"
proof -
  have "rowConfig demoRow ''volume''
          \<lparr>id' = ''volume'', weight = 40,
           thresholds = \<lparr>min' = - 35, ideal = - 15, max' = 0\<rparr>, method' = None\<rparr>
        = \<lparr>id' = ''volume'', weight = 20,
           thresholds = \<lparr>min' = - 45, ideal = - 20, max' = 0\<rparr>, method' = None\<rparr>"
    by (simp add: rowConfig_def demoRow_product Math_round_def) (simp add: demoRow_def)
  then show ?thesis
    using fetchConfigFromDB_row [of "[demoRow]" demoRow "''volume''"]
    by (simp add: DB_METRIC_MAP_volume default_volume) (simp add: demoRow_def DB_METRIC_MAP_volume)
qed

lemma lowRow_resolved:
  "getMetricConfig (fetchConfigFromDB (Response False (Some [lowRow]))) ''volume''
     = Some \<lparr>id' = ''volume'', weight = 2,
             thresholds = \<lparr>min' = - 35, ideal = - 15, max' = 0\<rparr>, method' = None\<rparr>"
proof -
  have "rowConfig lowRow ''volume''
          \<lparr>id' = ''volume'', weight = 40,
           thresholds = \<lparr>min' = - 35, ideal = - 15, max' = 0\<rparr>, method' = None\<rparr>
        = \<lparr>id' = ''volume'', weight = 2,
           thresholds = \<lparr>min' = - 35, ideal = - 15, max' = 0\<rparr>, method' = None\<rparr>"
    by (simp add: rowConfig_def lowRow_product Math_round_def) (simp add: lowRow_def)
  then show ?thesis
    using fetchConfigFromDB_row [of "[lowRow]" lowRow "''volume''"]
    by (simp add: DB_METRIC_MAP_volume default_volume) (simp add: lowRow_def DB_METRIC_MAP_volume)
qed

text \<open>
  C5, as stated: the resolved configuration of a metric has \<open>thresholds.max\<close> equal to the
  remote \<open>max_value\<close>, and weight = round(100 * remote weight). The first fails on the
  seeded row (volume, 0.2, -45, -20): the resolved volume metric has weight 20, min -45,
  ideal -20, and max still 0, the compiled default. The second fails, when the product is
  taken exactly, on a row of weight 0.015: the row carries the double nearest to 0.015,
  which is below it, so that 100 times the weight is below 1.5 and rounds to 1; the source
  rounds the double product, which is exactly 1.5, and the resolved weight is 2.
\<close>

theorem C5_counterexample:
  "DB_METRIC_MAP (metric_name demoRow) = Some ''volume''
   \<and> max_value demoRow = Some (- 20)
   \<and> getMetricConfig (fetchConfigFromDB (Response False (Some [demoRow]))) ''volume''
       = Some \<lparr>id' = ''volume'', weight = 20,
               thresholds = \<lparr>min' = - 45, ideal = - 20, max' = 0\<rparr>, method' = None\<rparr>
   \<and> DB_METRIC_MAP (metric_name lowRow) = Some ''volume''
   \<and> isDouble (ScoringRow.weight lowRow)
   \<and> Math_round (ScoringRow.weight lowRow * 100) = 1
   \<and> getMetricConfig (fetchConfigFromDB (Response False (Some [lowRow]))) ''volume''
       = Some \<lparr>id' = ''volume'', weight = 2,
               thresholds = \<lparr>min' = - 35, ideal = - 15, max' = 0\<rparr>, method' = None\<rparr>"
proof -
  have a: "DB_METRIC_MAP (metric_name demoRow) = Some ''volume'' \<and> max_value demoRow = Some (- 20)"
    by (simp add: demoRow_def DB_METRIC_MAP_volume)
  have b: "DB_METRIC_MAP (metric_name lowRow) = Some ''volume''"
    by (simp add: lowRow_def DB_METRIC_MAP_volume)
  have c: "Math_round (ScoringRow.weight lowRow * 100) = 1"
    by (simp add: lowRow_def Math_round_def)
  show ?thesis
    using a b c demoRow_resolved lowRow_resolved lowRow_double by simp
qed

text \<open>
  C5, amended: for every remote response without error whose rows have distinct metric
  names, and every row of it mapped onto an internal metric id whose weight is a double
  (of magnitude at most 2 to the power 1000, so that the product does not overflow), the
  resolved configuration of that metric has weight = \<open>Math.round\<close> of the double product
  of the remote weight by 100, \<open>thresholds.min\<close> = remote \<open>min_value\<close>, \<open>thresholds.ideal\<close> =
  remote \<open>max_value\<close>, and \<open>thresholds.max\<close> = remote \<open>max_value\<close> for \<open>pauseManagement\<close>
  only, the compiled default \<open>max\<close> for the other metrics; a remote bound that is \<open>null\<close>
  is replaced by the compiled default of the same field.
\<close>

theorem C5_remote_row:
  assumes "distinct (map metric_name rows)" and "row \<in> set rows"
    and "DB_METRIC_MAP (metric_name row) = Some i"
    and "isDouble (ScoringRow.weight row)" and "\<bar>ScoringRow.weight row\<bar> \<le> 2 ^ 1000"
  shows "\<exists>d c. getMetricConfig DEFAULT_CONFIG i = Some d
           \<and> getMetricConfig (fetchConfigFromDB (Response False (Some rows))) i = Some c
           \<and> weight c = real_of_int (Math_round (fl64 (ScoringRow.weight row * 100)))
           \<and> min' (thresholds c)
               = (case min_value row of Some v \<Rightarrow> v | None \<Rightarrow> min' (thresholds d))
           \<and> ideal (thresholds c)
               = (case max_value row of Some v \<Rightarrow> v | None \<Rightarrow> ideal (thresholds d))
           \<and> max' (thresholds c)
               = (if i = ''pauseManagement''
                  then (case max_value row of Some v \<Rightarrow> v | None \<Rightarrow> max' (thresholds d))
                  else max' (thresholds d))
           \<and> id' c = i \<and> MetricConfig.method' c = MetricConfig.method' d"
proof -
  obtain d where d: "getMetricConfig DEFAULT_CONFIG i = Some d"
    and c: "getMetricConfig (fetchConfigFromDB (Response False (Some rows))) i
              = Some (rowConfig row i d)"
    using fetchConfigFromDB_row [OF assms(1,2,3)] by blast
  have "id' d = i"
    using d by (auto simp: getMetricConfig_def find_Some_iff)
  then show ?thesis
    using d c by (simp add: rowConfig_def)
qed

theorem C5_remote_row_witness:
  "distinct (map metric_name [demoRow]) \<and> DB_METRIC_MAP (metric_name demoRow) = Some ''volume''
   \<and> isDouble (ScoringRow.weight demoRow) \<and> \<bar>ScoringRow.weight demoRow\<bar> \<le> 2 ^ 1000
   \<and> (\<exists>c. getMetricConfig (fetchConfigFromDB (Response False (Some [demoRow]))) ''volume'' = Some c
          \<and> weight c = 20 \<and> min' (thresholds c) = - 45 \<and> ideal (thresholds c) = - 20
          \<and> max' (thresholds c) = 0)"
proof -
  have m: "DB_METRIC_MAP (metric_name demoRow) = Some ''volume''"
    by (simp add: demoRow_def DB_METRIC_MAP_volume)
  have b: "\<bar>ScoringRow.weight demoRow\<bar> \<le> 2 ^ 1000"
    by (simp add: demoRow_def)
  have v: "min_value demoRow = Some (- 45) \<and> max_value demoRow = Some (- 20)"
    by (simp add: demoRow_def)
  have "\<exists>c. getMetricConfig (fetchConfigFromDB (Response False (Some [demoRow]))) ''volume'' = Some c
          \<and> weight c = 20 \<and> min' (thresholds c) = - 45 \<and> ideal (thresholds c) = - 20
          \<and> max' (thresholds c) = 0"
    using C5_remote_row [of "[demoRow]" demoRow "''volume''", OF _ _ m demoRow_double b] v
    by (auto simp: default_volume demoRow_product Math_round_def)
  then show ?thesis using m demoRow_double b by simp
qed

section \<open>Properties of the analysis\<close>

text \<open>
  C3: when the supplied voice-activity metrics have \<open>speechRatio \<le> 0.02\<close> and
  \<open>totalSpeechTime < 200\<close>, \<open>analyzeAudioAsync\<close> returns the fixed no-speech result,
  whatever the buffer is, and leaves the calibration storage alone: the overall score
  and every metric score are 0, and the feedback is the one "no speech" message.
\<close>

theorem C3_no_speech:
  assumes "audio = Some a" and "vadMetrics a = Some v"
    and "speechRatio v \<le> 0.02" and "totalSpeechTime v < 200"
  shows "\<exists>r env'. analyzeAudioAsync audioBuffer sampleRate audio out env = Some (r, env')
           \<and> r = noSpeechResult (resolvedMethod out env)
           \<and> calibration env' = calibration env
           \<and> overallScore r = Fin 0
           \<and> VolumeResult.score (volume r) = 0
           \<and> SpeechRateResult.score (speechRate r) = 0
           \<and> AccelerationResult.score (acceleration r) = Fin 0
           \<and> ResponseTimeResult.score (responseTime r) = 0
           \<and> PauseManagementResult.score (pauseManagement r) = 0
           \<and> PauseManagementResult.score (pauses r) = 0
           \<and> metrics r = \<lparr>Metrics.volume = 0, Metrics.speechRate = 0, Metrics.pauses = 0,
                            latency = 0, endIntensity = Fin 0\<rparr>
           \<and> feedback r = [''No speech detected. Please try again and speak clearly.'']"
  using assms
  by (simp add: analyzeAudioAsync_def resolvedMethod_def resolvedConfig_def noSpeechResult_def
      Let_def split: prod.splits)

theorem C3_no_speech_witness:
  "vadMetrics silentAudio = Some silentVad
   \<and> speechRatio silentVad = 0 \<and> totalSpeechTime silentVad = 0
   \<and> (\<exists>r env'. analyzeAudioAsync [0, 0, 0] 16000 (Some silentAudio) demoOutside demoEnv
                  = Some (r, env')
         \<and> overallScore r = Fin 0
         \<and> feedback r = [''No speech detected. Please try again and speak clearly.''])"
proof -
  have v: "vadMetrics silentAudio = Some silentVad" by (simp add: silentAudio_def)
  have s: "speechRatio silentVad \<le> 0.02" and t: "totalSpeechTime silentVad < 200"
    by (simp_all add: silentVad_def)
  from C3_no_speech [OF refl v s t, of "[0, 0, 0]" 16000 demoOutside demoEnv]
  show ?thesis by (auto simp: v silentVad_def)
qed

lemma pauseScan_returns:
  assumes "0 < pauseFrame sampleRate"
  shows "\<exists>s'. pauseScan audioBuffer sampleRate i s = Some s'"
proof (induction "nat (int (length audioBuffer) - pauseFrame sampleRate - i)" arbitrary: i s rule: less_induct)
  case less
  show ?case
  proof (cases "i < int (length audioBuffer) - pauseFrame sampleRate")
    case True
    then have "nat (int (length audioBuffer) - pauseFrame sampleRate - (i + pauseFrame sampleRate))
        < nat (int (length audioBuffer) - pauseFrame sampleRate - i)"
      using assms by linarith
    from less [OF this] obtain s' where
      "pauseScan audioBuffer sampleRate (i + pauseFrame sampleRate) (pauseStep audioBuffer sampleRate i s) = Some s'"
      by blast
    then show ?thesis using True by (subst pauseScan.simps) simp
  next
    case False
    then show ?thesis by (subst pauseScan.simps) simp
  qed
qed

lemma analyzePauses_returns:
  assumes "0 < pauseFrame sampleRate"
  shows "\<exists>pm. analyzePauses audioBuffer sampleRate config vad = Some pm"
proof -
  obtain s' where "pauseScan audioBuffer sampleRate 0
      \<lparr>silentFrames = 0, totalFrames = 0, currentSilent = 0, pausesSec = []\<rparr> = Some s'"
    using pauseScan_returns [OF assms] by blast
  then show ?thesis by (simp add: analyzePauses_def Let_def)
qed

lemma pauseFrame_pos:
  assumes "20 \<le> sampleRate"
  shows "0 < pauseFrame sampleRate"
proof -
  have "1 \<le> sampleRate * 0.05" using assms by simp
  then have "1 \<le> \<lfloor>sampleRate * 0.05\<rfloor>" by (simp add: le_floor_iff)
  then show ?thesis by (simp add: pauseFrame_def)
qed

lemma processedBuffer_fst:
  "truthy dev \<Longrightarrow> fst (processedBuffer audioBuffer sampleRate dev out env) = calibratedBuffer audioBuffer sampleRate dev out env"
  by (simp add: processedBuffer_def calibratedBuffer_def Let_def split: prod.splits)

lemma analyzeAudioAsync_fields:
  assumes "speechPresent (case audio of Some a \<Rightarrow> vadMetrics a | None \<Rightarrow> None)"
    and "analyzePauses (fst (processedBuffer audioBuffer sampleRate (case audio of Some a \<Rightarrow> AudioOptions.deviceId a | None \<Rightarrow> None) out env))
            sampleRate (resolvedConfig out env) (case audio of Some a \<Rightarrow> vadMetrics a | None \<Rightarrow> None) = Some pm"
  shows "\<exists>r env'. analyzeAudioAsync audioBuffer sampleRate audio out env = Some (r, env')
      \<and> volume r = analyzeVolume audioBuffer (resolvedConfig out env)
            (deviceOffsetOf audioBuffer sampleRate (case audio of Some a \<Rightarrow> AudioOptions.deviceId a | None \<Rightarrow> None) out env)
      \<and> speechRate r = analyzeSpeechRate (fst (processedBuffer audioBuffer sampleRate (case audio of Some a \<Rightarrow> AudioOptions.deviceId a | None \<Rightarrow> None) out env))
            sampleRate (resolvedConfig out env)
            (speechDuration (fst (processedBuffer audioBuffer sampleRate (case audio of Some a \<Rightarrow> AudioOptions.deviceId a | None \<Rightarrow> None) out env)) sampleRate (case audio of Some a \<Rightarrow> vadMetrics a | None \<Rightarrow> None))
            (resolvedMethod out env)
            (case audio of Some a \<Rightarrow> audioBlob a | None \<Rightarrow> None)
            (case audio of Some a \<Rightarrow> sttWordCount a | None \<Rightarrow> None)
            (transcribeA out) (transcribeB out)
      \<and> acceleration r = analyzeAcceleration (fst (processedBuffer audioBuffer sampleRate (case audio of Some a \<Rightarrow> AudioOptions.deviceId a | None \<Rightarrow> None) out env)) sampleRate (resolvedConfig out env)
      \<and> responseTime r = analyzeResponseTime (fst (processedBuffer audioBuffer sampleRate (case audio of Some a \<Rightarrow> AudioOptions.deviceId a | None \<Rightarrow> None) out env)) sampleRate (resolvedConfig out env)
      \<and> pauseManagement r = pm"
proof -
  let ?dev = "case audio of Some a \<Rightarrow> AudioOptions.deviceId a | None \<Rightarrow> None"
  obtain config cache where g: "getConfigAsync (metricConfigItem env) (dbResult out) (clock out) (configCache env) = (config, cache)"
    by fastforce
  obtain processed norm offset st where p: "processedBuffer audioBuffer sampleRate ?dev out env = (processed, norm, offset, st)"
    by (metis prod_cases4)
  show ?thesis
    using assms g p
    by (simp add: analyzeAudioAsync_def resolvedMethod_def resolvedConfig_def deviceOffsetOf_def
        speechDuration_def speechPresent_def Let_def)
qed

lemma analyzeAudioAsync_pauses:
  assumes "analyzeAudioAsync audioBuffer sampleRate audio out env = Some (r, env')"
    and "speechPresent (case audio of Some a \<Rightarrow> vadMetrics a | None \<Rightarrow> None)"
  shows "\<exists>pm. analyzePauses (fst (processedBuffer audioBuffer sampleRate
              (case audio of Some a \<Rightarrow> AudioOptions.deviceId a | None \<Rightarrow> None) out env))
            sampleRate (resolvedConfig out env)
            (case audio of Some a \<Rightarrow> vadMetrics a | None \<Rightarrow> None) = Some pm"
proof -
  let ?dev = "case audio of Some a \<Rightarrow> AudioOptions.deviceId a | None \<Rightarrow> None"
  obtain config cache where g: "getConfigAsync (metricConfigItem env) (dbResult out) (clock out) (configCache env) = (config, cache)"
    by fastforce
  obtain processed norm offset st where p: "processedBuffer audioBuffer sampleRate ?dev out env = (processed, norm, offset, st)"
    by (metis prod_cases4)
  show ?thesis
    using assms g p
    by (cases "analyzePauses processed sampleRate config (case audio of Some a \<Rightarrow> vadMetrics a | None \<Rightarrow> None)")
       (simp_all add: analyzeAudioAsync_def resolvedConfig_def speechPresent_def Let_def)
qed

lemma referenceLevel_track:
  "map_option referenceLevel (profileFor dev (trackRecording dev stats now st))
     = map_option referenceLevel (profileFor dev st)"
proof (cases "profileFor dev st")
  case None
  then have "getCalibrationProfile dev now st = (None, st)"
    by (simp add: getCalibrationProfile_def profileFor_def)
  with None show ?thesis by (simp add: trackRecording_def)
next
  case (Some p)
  then have d: "deviceId p = dev" by (auto simp: profileFor_def dest: find_deviceId)
  let ?q = "p\<lparr>lastUsed := now\<rparr>"
  obtain h where t: "trackRecording dev stats now st
      = saveCalibrationProfile (?q\<lparr>recordingHistory := Some h\<rparr>) (saveCalibrationProfile ?q st)"
    using getCalibrationProfile_found [OF Some, of now] by (simp add: trackRecording_def Let_def)
  have "profileFor (deviceId (?q\<lparr>recordingHistory := Some h\<rparr>))
          (saveCalibrationProfile (?q\<lparr>recordingHistory := Some h\<rparr>) (saveCalibrationProfile ?q st))
        = Some (?q\<lparr>recordingHistory := Some h\<rparr>)"
    by (rule profileFor_save_same)
  with d t Some show ?thesis by simp
qed

lemma calibrateAndNormalize_storage:
  "truthy (Some d) \<Longrightarrow> \<exists>stats. snd (calibrateAndNormalize audioBuffer sampleRate (Some d) t now st)
      = trackRecording d stats now (snd (getCalibrationProfile d now st))"
  by (auto simp: calibrateAndNormalize_def Let_def split: prod.splits)

lemma deviceOffsetOf_profile:
  assumes "d \<noteq> []"
  shows "deviceOffsetOf audioBuffer sampleRate (Some d) out env = profileOffset d (calibration env)"
proof -
  have t: "truthy (Some d)" using assms by (simp add: truthy_def)
  obtain stats where s: "snd (calibrateAndNormalize audioBuffer sampleRate (Some d) TARGET_LUFS (clock out) (calibration env))
      = trackRecording d stats (clock out) (snd (getCalibrationProfile d (clock out) (calibration env)))"
    using calibrateAndNormalize_storage [OF t] by blast
  let ?st1 = "snd (calibrateAndNormalize audioBuffer sampleRate (Some d) TARGET_LUFS (clock out) (calibration env))"
  have "map_option referenceLevel (profileFor d ?st1) = map_option referenceLevel (profileFor d (calibration env))"
    by (simp add: s referenceLevel_track profileFor_get_same option.map_comp comp_def)
  moreover have "deviceOffsetOf audioBuffer sampleRate (Some d) out env
      = (case map_option referenceLevel (fst (getCalibrationProfile d (clock out) ?st1)) of
           Some l \<Rightarrow> TARGET_LUFS - numberOf l | None \<Rightarrow> 0)"
    using t by (simp add: deviceOffsetOf_def processedBuffer_def Let_def split: prod.splits option.splits)
  ultimately show ?thesis
    by (simp add: getCalibrationProfile_fst profileOffset_def option.map_comp comp_def split: option.splits)
qed

lemma demo_config: "resolvedConfig demoOutside demoEnv = DEFAULT_CONFIG"
  by (simp add: resolvedConfig_def getConfigAsync_def getConfigFromLocalStorage_def demoEnv_def demoOutside_def
      fetchConfigFromDB_def Let_def)

lemma short_16000: "calculateLUFS [x] 16000 = NegInf"
  by (rule no_blocks_NegInf, rule short_buffer_no_blocks) (simp add: blockSizeOf_def)

lemma demo_get: "getCalibrationProfile ''mic'' 0 (Some [demoProfile ''mic'' h]) = (Some (demoProfile ''mic'' h), Some [demoProfile ''mic'' h])"
  by (simp add: getCalibrationProfile_def getCalibrationProfiles_def saveCalibrationProfile_def demoProfile_def Let_def)

lemma demo_calibrated: "calibratedBuffer [0.1] 16000 (Some ''mic'') demoOutside demoEnv = [1]"
  by (simp add: calibratedBuffer_def calibrateAndNormalize_def truthy_def demoEnv_def demoOutside_def demo_get
      short_16000 normalizeToLUFS_def Let_def clip_def) (simp add: demoProfile_def clip_def)

lemma rmsOf_single: "rmsOf [x] = \<bar>x\<bar>"
  by (simp add: rmsOf_def)

lemma log10_tenth: "Math_log10 (1 / 10) = - 1"
  by (simp add: Math_log10_def log_divide)

lemma thresholds_volume: "thresholdsOf DEFAULT_CONFIG ''volume'' t = \<lparr>min' = - 35, ideal = - 15, max' = 0\<rparr>"
  by (simp add: thresholdsOf_def getMetricConfig_def DEFAULT_CONFIG_def)

lemma volume_raw: "analyzeVolume [0.1] DEFAULT_CONFIG 0 = \<lparr>averageDb = Fin (- 20), VolumeResult.score = 68, VolumeResult.tag = ''ENERGY''\<rparr>"
  by (simp add: analyzeVolume_def thresholds_volume calculateSegmentDb_def rmsOf_single log10_tenth
      volumeScore_def roundTo_def Math_round_def Let_def)

lemma volume_processed: "analyzeVolume [1] DEFAULT_CONFIG 0 = \<lparr>averageDb = Fin 0, VolumeResult.score = 90, VolumeResult.tag = ''ENERGY''\<rparr>"
  by (simp add: analyzeVolume_def thresholds_volume calculateSegmentDb_def rmsOf_single Math_log10_def
      volumeScore_def roundTo_def Math_round_def Let_def)

lemma demo_offset: "profileOffset ''mic'' (calibration demoEnv) = 0"
  by (simp add: profileOffset_def profileFor_def getCalibrationProfiles_def demoEnv_def
      demoProfile_def TARGET_LUFS_def numberOf_def)

lemma demo_returns:
  "\<exists>r env'. analyzeAudioAsync [0.1] 16000 (Some demoAudio) demoOutside demoEnv = Some (r, env')
      \<and> volume r = analyzeVolume [0.1] DEFAULT_CONFIG 0"
proof -
  have sp: "speechPresent (case Some demoAudio of Some a \<Rightarrow> vadMetrics a | None \<Rightarrow> None)"
    by (simp add: speechPresent_def demoAudio_def)
  have "0 < pauseFrame 16000" by (simp add: pauseFrame_def)
  from analyzePauses_returns [OF this] obtain pm where
    "analyzePauses (fst (processedBuffer [0.1] 16000
            (case Some demoAudio of Some a \<Rightarrow> AudioOptions.deviceId a | None \<Rightarrow> None)
            demoOutside demoEnv))
          16000 (resolvedConfig demoOutside demoEnv)
          (case Some demoAudio of Some a \<Rightarrow> vadMetrics a | None \<Rightarrow> None) = Some pm"
    by blast
  from analyzeAudioAsync_fields [OF sp this]
  obtain r env' where
    "analyzeAudioAsync [0.1] 16000 (Some demoAudio) demoOutside demoEnv = Some (r, env')"
    and "volume r = analyzeVolume [0.1] (resolvedConfig demoOutside demoEnv)
            (deviceOffsetOf [0.1] 16000
               (case Some demoAudio of Some a \<Rightarrow> AudioOptions.deviceId a | None \<Rightarrow> None)
               demoOutside demoEnv)"
    by blast
  then show ?thesis
    using deviceOffsetOf_profile [of "''mic''" "[0.1]" 16000 demoOutside demoEnv]
    by (simp add: demo_config demoAudio_def demo_offset)
qed

text \<open>
  C8, as stated: with a device id whose calibration changes the buffer, the volume
  analyzer too works on the processed buffer. It fails on the one-sample buffer [0.1] at
  16000 Hz with a stored profile of gain 10 and reference level -23: the processed buffer
  is [1], on which the volume score would be 90, and the result has the volume score 68
  of the raw buffer.
\<close>

theorem C8_counterexample:
  "calibratedBuffer [0.1] 16000 (Some ''mic'') demoOutside demoEnv = [1]
   \<and> analyzeAudioAsync [0.1] 16000 (Some demoAudio) demoOutside demoEnv \<noteq> None
   \<and> VolumeResult.score (volume (fst (the
        (analyzeAudioAsync [0.1] 16000 (Some demoAudio) demoOutside demoEnv)))) = 68
   \<and> VolumeResult.score
        (analyzeVolume (calibratedBuffer [0.1] 16000 (Some ''mic'') demoOutside demoEnv)
           (resolvedConfig demoOutside demoEnv) (profileOffset ''mic'' (calibration demoEnv)))
       = 90"
proof -
  obtain r env' where
    r: "analyzeAudioAsync [0.1] 16000 (Some demoAudio) demoOutside demoEnv = Some (r, env')"
    and v: "volume r = analyzeVolume [0.1] DEFAULT_CONFIG 0"
    using demo_returns by blast
  show ?thesis
    by (simp add: r v demo_calibrated demo_config demo_offset volume_raw volume_processed)
qed

text \<open>
  C8, amended: in every analysis call with a device id (and detected speech), the
  speech-rate estimator and the acceleration, response-time and pause analyzers work on
  the processed (calibrated and normalized) buffer, and the volume analyzer works on the
  raw input buffer, with the device offset \<open>TARGET_LUFS - referenceLevel\<close> of the stored
  profile (0 without a profile) added to its level. The call returns at every sample
  rate of at least 20 Hz.
\<close>

theorem C8_analysis_buffers:
  assumes "audio = Some a" and "AudioOptions.deviceId a = Some d" and "d \<noteq> []"
    and "speechPresent (vadMetrics a)"
  shows "(\<forall>r env'. analyzeAudioAsync audioBuffer sampleRate audio out env = Some (r, env') \<longrightarrow>
            speechRate r =
              analyzeSpeechRate (calibratedBuffer audioBuffer sampleRate (Some d) out env)
                sampleRate (resolvedConfig out env)
                (speechDuration (calibratedBuffer audioBuffer sampleRate (Some d) out env)
                   sampleRate (vadMetrics a))
                (resolvedMethod out env) (audioBlob a) (sttWordCount a)
                (transcribeA out) (transcribeB out)
          \<and> acceleration r =
              analyzeAcceleration (calibratedBuffer audioBuffer sampleRate (Some d) out env)
                sampleRate (resolvedConfig out env)
          \<and> responseTime r =
              analyzeResponseTime (calibratedBuffer audioBuffer sampleRate (Some d) out env)
                sampleRate (resolvedConfig out env)
          \<and> analyzePauses (calibratedBuffer audioBuffer sampleRate (Some d) out env)
                sampleRate (resolvedConfig out env) (vadMetrics a) = Some (pauseManagement r)
          \<and> volume r =
              analyzeVolume audioBuffer (resolvedConfig out env)
                (profileOffset d (calibration env)))
       \<and> (20 \<le> sampleRate \<longrightarrow>
            (\<exists>r env'. analyzeAudioAsync audioBuffer sampleRate audio out env = Some (r, env')))"
proof -
  have t: "truthy (Some d)" using assms(3) by (simp add: truthy_def)
  have b: "fst (processedBuffer audioBuffer sampleRate (Some d) out env)
             = calibratedBuffer audioBuffer sampleRate (Some d) out env"
    using t by (rule processedBuffer_fst)
  have sp: "speechPresent (case audio of Some a \<Rightarrow> vadMetrics a | None \<Rightarrow> None)"
    using assms(1,4) by simp
  have 1: "\<forall>r env'. analyzeAudioAsync audioBuffer sampleRate audio out env = Some (r, env') \<longrightarrow>
            speechRate r =
              analyzeSpeechRate (calibratedBuffer audioBuffer sampleRate (Some d) out env)
                sampleRate (resolvedConfig out env)
                (speechDuration (calibratedBuffer audioBuffer sampleRate (Some d) out env)
                   sampleRate (vadMetrics a))
                (resolvedMethod out env) (audioBlob a) (sttWordCount a)
                (transcribeA out) (transcribeB out)
          \<and> acceleration r =
              analyzeAcceleration (calibratedBuffer audioBuffer sampleRate (Some d) out env)
                sampleRate (resolvedConfig out env)
          \<and> responseTime r =
              analyzeResponseTime (calibratedBuffer audioBuffer sampleRate (Some d) out env)
                sampleRate (resolvedConfig out env)
          \<and> analyzePauses (calibratedBuffer audioBuffer sampleRate (Some d) out env)
                sampleRate (resolvedConfig out env) (vadMetrics a) = Some (pauseManagement r)
          \<and> volume r =
              analyzeVolume audioBuffer (resolvedConfig out env)
                (profileOffset d (calibration env))"
  proof (intro allI impI)
    fix r env'
    assume res: "analyzeAudioAsync audioBuffer sampleRate audio out env = Some (r, env')"
    from analyzeAudioAsync_pauses [OF res sp] obtain pm where
      pm: "analyzePauses (fst (processedBuffer audioBuffer sampleRate
              (case audio of Some a \<Rightarrow> AudioOptions.deviceId a | None \<Rightarrow> None) out env))
            sampleRate (resolvedConfig out env)
            (case audio of Some a \<Rightarrow> vadMetrics a | None \<Rightarrow> None) = Some pm"
      by blast
    from analyzeAudioAsync_fields [OF sp pm] res
    show "speechRate r =
              analyzeSpeechRate (calibratedBuffer audioBuffer sampleRate (Some d) out env)
                sampleRate (resolvedConfig out env)
                (speechDuration (calibratedBuffer audioBuffer sampleRate (Some d) out env)
                   sampleRate (vadMetrics a))
                (resolvedMethod out env) (audioBlob a) (sttWordCount a)
                (transcribeA out) (transcribeB out)
          \<and> acceleration r =
              analyzeAcceleration (calibratedBuffer audioBuffer sampleRate (Some d) out env)
                sampleRate (resolvedConfig out env)
          \<and> responseTime r =
              analyzeResponseTime (calibratedBuffer audioBuffer sampleRate (Some d) out env)
                sampleRate (resolvedConfig out env)
          \<and> analyzePauses (calibratedBuffer audioBuffer sampleRate (Some d) out env)
                sampleRate (resolvedConfig out env) (vadMetrics a) = Some (pauseManagement r)
          \<and> volume r =
              analyzeVolume audioBuffer (resolvedConfig out env)
                (profileOffset d (calibration env))"
      using pm b assms(1,2) deviceOffsetOf_profile [OF assms(3)] by auto
  qed
  have 2: "20 \<le> sampleRate \<longrightarrow>
            (\<exists>r env'. analyzeAudioAsync audioBuffer sampleRate audio out env = Some (r, env'))"
  proof
    assume "20 \<le> sampleRate"
    then have "0 < pauseFrame sampleRate" by (rule pauseFrame_pos)
    from analyzePauses_returns [OF this] obtain pm where
      "analyzePauses (fst (processedBuffer audioBuffer sampleRate
              (case audio of Some a \<Rightarrow> AudioOptions.deviceId a | None \<Rightarrow> None) out env))
            sampleRate (resolvedConfig out env)
            (case audio of Some a \<Rightarrow> vadMetrics a | None \<Rightarrow> None) = Some pm"
      by blast
    from analyzeAudioAsync_fields [OF sp this]
    show "\<exists>r env'. analyzeAudioAsync audioBuffer sampleRate audio out env = Some (r, env')"
      by blast
  qed
  from 1 2 show ?thesis by blast
qed

theorem C8_analysis_buffers_witness:
  "analyzeAudioAsync [0.1] 16000 (Some demoAudio) demoOutside demoEnv \<noteq> None
   \<and> acceleration (fst (the (analyzeAudioAsync [0.1] 16000 (Some demoAudio) demoOutside demoEnv)))
       = analyzeAcceleration [1] 16000 DEFAULT_CONFIG
   \<and> responseTime (fst (the (analyzeAudioAsync [0.1] 16000 (Some demoAudio) demoOutside demoEnv)))
       = analyzeResponseTime [1] 16000 DEFAULT_CONFIG
   \<and> volume (fst (the (analyzeAudioAsync [0.1] 16000 (Some demoAudio) demoOutside demoEnv)))
       = analyzeVolume [0.1] DEFAULT_CONFIG 0"
proof -
  have a: "AudioOptions.deviceId demoAudio = Some ''mic''"
    and s: "speechPresent (vadMetrics demoAudio)"
    by (simp_all add: demoAudio_def speechPresent_def)
  from C8_analysis_buffers [OF refl a _ s, of "[0.1]" 16000 demoOutside demoEnv]
  show ?thesis
    by (auto simp: demo_calibrated demo_config demo_offset)
qed

end
